theory Spec2Isabelle
  imports Main
begin

section \<open>Viewer: the onMessage callback of App (client/src/App.tsx)\<close>

text \<open>
  The callback receives the parsed envelope \<open>data\<close>. It reads \<open>data.type\<close> and
  \<open>data.diagram\<close>; the diagram field may be absent (\<open>None\<close>). The component state
  it writes is \<open>diagram\<close>, \<open>status\<close> and \<open>hasManuallyZoomed\<close>; it schedules a
  timeout that fits the view, and calls \<open>send\<close> of the connection hook. Calls of
  \<open>setTimeout\<close> and \<open>send\<close> are recorded in the order they are made.
\<close>

record Envelope =
  data_type :: string
  data_diagram :: "string option"

record Outgoing =
  out_type :: string
  isVisible :: bool

text \<open>What the browser document reports when the callback runs.\<close>

record Document =
  hidden :: bool
  hasFocus :: bool

datatype TimerAction = HandleFitToScreen bool

record App =
  diagram :: string
  status :: string
  hasManuallyZoomed :: bool
  timeouts :: "(TimerAction \<times> nat) list"
  sent :: "Outgoing list"

text \<open>JavaScript truthiness of an optional string: absent and the empty string are falsy.\<close>

definition truthy :: "string option \<Rightarrow> bool" where
  "truthy v = (case v of None \<Rightarrow> False | Some s \<Rightarrow> s \<noteq> [])"

definition send :: "Outgoing \<Rightarrow> App \<Rightarrow> App" where
  "send m app = app\<lparr>sent := sent app @ [m]\<rparr>"

definition onMessage :: "Document \<Rightarrow> Envelope \<Rightarrow> App \<Rightarrow> App" where
  "onMessage document data app =
     (if data_type data = ''render_result'' \<and> truthy (data_diagram data) then
        (case data_diagram data of
           None \<Rightarrow> app
         | Some d \<Rightarrow>
             app\<lparr>diagram := d,
                 status := ''Rendered successfully (via broadcast)'',
                 hasManuallyZoomed := False,
                 timeouts := timeouts app @ [(HandleFitToScreen True, 100)]\<rparr>)
      else if data_type data = ''visibility_query'' then
        send \<lparr>out_type = ''visibility_response'', isVisible = \<not> hidden document\<rparr> app
      else app)"

text \<open>The component's initial state: \<open>useState("")\<close>, \<open>useState("Ready")\<close>,
  \<open>useState(false)\<close>.\<close>

definition initialApp :: App where
  "initialApp = \<lparr>diagram = [], status = ''Ready'', hasManuallyZoomed = False,
                  timeouts = [], sent = []\<rparr>"

section \<open>Tool server: EmbeddedMCPServer (electron/mcp/embeddedServer.ts)\<close>

text \<open>
  A JavaScript \<open>throw\<close> carries any value; the handlers only ask whether it is an
  \<open>Error\<close> (then they read its message) or not.
\<close>

datatype Thrown = JsError string | NonError

definition errorMessage :: "string \<Rightarrow> Thrown \<Rightarrow> string" where
  "errorMessage fallback e = (case e of JsError m \<Rightarrow> m | NonError \<Rightarrow> fallback)"

text \<open>
  \<open>RenderResult\<close> is declared in shared/types.ts, which is not among the sources.
  The handlers read and write its discriminant \<open>type\<close> ('success' or 'error'), and
  build an error result from \<open>diagram\<close> and \<open>error\<close>; \<open>result_svg\<close> stands for
  what the renderer adds on success, which the handlers only copy.
\<close>

datatype ResultType = RSuccess | RError

record RenderResult =
  result_type :: ResultType
  result_diagram :: string
  result_svg :: "string option"
  result_error :: "string option"

text \<open>The payload \<open>{ diagram, title, id }\<close> sent on the MCP_DIAGRAM_UPDATE channel.\<close>

record DiagramUpdate =
  update_diagram :: string
  update_title :: string
  update_id :: string

text \<open>The calls \<open>focusWindow\<close> makes on Electron's \<open>BrowserWindow\<close>.\<close>

datatype WindowCall = GetAllWindows | IsMinimized | Restore | ShowWindow | Focus

text \<open>The three objects the CallTool handler stringifies: a render result,
  \<open>{message}\<close> and \<open>{error}\<close>.\<close>

datatype ToolPayload =
    RenderResultObject RenderResult
  | MessageObject string
  | ErrorObject string

text \<open>An Electron window, as far as the handlers and the relay read or change it.\<close>

record BrowserWindow =
  minimized :: bool
  shown :: bool
  focused :: bool
  destroyed :: bool
  received :: "DiagramUpdate list"

text \<open>
  The collaborators the handlers call, taken as parameters: the shared renderer
  (shared/renderer.js), \<open>process.cwd()\<close>, the repository detector
  (shared/gitRepoDetector.js), the \<open>saveDiagram\<close> method of the history service
  (shared/historyService.js) over a history state \<open>'h\<close>, which yields the id of the
  saved entry or throws and in both cases leaves a history state behind, Electron (for
  each window call and the windows it finds, whether the call throws), and the built-in
  \<open>JSON.stringify\<close> with its indentation.
\<close>

record 'h Collaborators =
  render :: "string \<Rightarrow> string option \<Rightarrow> Thrown + RenderResult"
  cwd :: "Thrown + string"
  detectGitRepo :: "string \<Rightarrow> Thrown + string option"
  saveDiagram :: "string \<Rightarrow> string \<Rightarrow> string option \<Rightarrow> 'h \<Rightarrow> (Thrown + string) \<times> 'h"
  electronThrows :: "WindowCall \<Rightarrow> BrowserWindow list \<Rightarrow> Thrown option"
  stringify :: "ToolPayload \<Rightarrow> nat \<Rightarrow> string"

text \<open>Every call that leaves the handler, in the order made.\<close>

datatype Effect =
    RenderCall string "string option"
  | DetectGitRepoCall string
  | SaveDiagramCall string string "string option"
  | ConsoleLog string
  | ConsoleError string Thrown
  | OnDiagramUpdateCall string string string

text \<open>
  The server's fields. \<open>onDiagramUpdate\<close> is the registered callback or null; a
  callback, called with diagram, title and id, returns or throws.
\<close>

record 'h Server =
  historyService :: 'h
  onDiagramUpdate :: "(string \<Rightarrow> string \<Rightarrow> string \<Rightarrow> Thrown option) option"
  allWindows :: "BrowserWindow list"
  isRunning :: bool
  journal :: "Effect list"

definition record_effect :: "Effect \<Rightarrow> 'h Server \<Rightarrow> 'h Server" where
  "record_effect e s = s\<lparr>journal := journal s @ [e]\<rparr>"

text \<open>Statements in sequence: a throw (\<open>Some e\<close>) skips what follows and keeps the
  state reached.\<close>

definition andThen :: "Thrown option \<times> 'st \<Rightarrow> ('st \<Rightarrow> Thrown option \<times> 'st)
    \<Rightarrow> Thrown option \<times> 'st" where
  "andThen r f = (case r of (Some e, s) \<Rightarrow> (Some e, s) | (None, s) \<Rightarrow> f s)"

text \<open>One Electron call on the first window: it throws, or has its effect on that
  window.\<close>

definition windowCall :: "'h Collaborators \<Rightarrow> WindowCall \<Rightarrow> (BrowserWindow \<Rightarrow> BrowserWindow)
    \<Rightarrow> 'h Server \<Rightarrow> Thrown option \<times> 'h Server" where
  "windowCall env call effect s =
     (case electronThrows env call (allWindows s) of
        Some e \<Rightarrow> (Some e, s)
      | None \<Rightarrow>
          (None, s\<lparr>allWindows := (case allWindows s of
                                     [] \<Rightarrow> []
                                   | firstWindow # others \<Rightarrow> effect firstWindow # others)\<rparr>))"

text \<open>\<open>focusWindow\<close>: the first of \<open>BrowserWindow.getAllWindows()\<close> is restored when
  minimized, then shown and focused. It has no \<open>try\<close> of its own.\<close>

definition focusWindow :: "'h Collaborators \<Rightarrow> 'h Server \<Rightarrow> Thrown option \<times> 'h Server" where
  "focusWindow env s =
     andThen (windowCall env GetAllWindows (\<lambda>w. w) s) (\<lambda>s1.
       case allWindows s1 of
         [] \<Rightarrow> (None, s1)
       | firstWindow # others \<Rightarrow>
           andThen (windowCall env IsMinimized (\<lambda>w. w) s1) (\<lambda>s2.
           andThen (if minimized firstWindow
                    then windowCall env Restore (\<lambda>w. w\<lparr>minimized := False\<rparr>) s2
                    else (None, s2)) (\<lambda>s3.
           andThen (windowCall env ShowWindow (\<lambda>w. w\<lparr>shown := True\<rparr>) s3) (\<lambda>s4.
           windowCall env Focus (\<lambda>w. w\<lparr>focused := True\<rparr>) s4))))"

text \<open>The block "Save to history" of \<open>renderMermaid\<close>: it runs when \<open>title\<close> is
  truthy, and its own \<open>try/catch\<close> logs whatever \<open>process.cwd()\<close>, the detector or
  the save throws. It yields \<open>diagramId\<close>.\<close>

definition saveToHistory :: "'h Collaborators \<Rightarrow> string \<Rightarrow> string option \<Rightarrow> 'h Server
    \<Rightarrow> string option \<times> 'h Server" where
  "saveToHistory env dia title s =
     (case title of
        None \<Rightarrow> (None, s)
      | Some t \<Rightarrow>
          if t = [] then (None, s)
          else
            (case cwd env of
               Inl e \<Rightarrow>
                 (None, record_effect
                    (ConsoleError ''[EmbeddedMCP] Failed to save diagram to history:'' e) s)
             | Inr workingDir \<Rightarrow>
                 (let s1 = record_effect (DetectGitRepoCall workingDir) s in
                  case detectGitRepo env workingDir of
                    Inl e \<Rightarrow>
                      (None, record_effect
                         (ConsoleError ''[EmbeddedMCP] Failed to save diagram to history:'' e) s1)
                  | Inr collection \<Rightarrow>
                      (let s2 = record_effect (SaveDiagramCall dia t collection) s1 in
                       case saveDiagram env dia t collection (historyService s2) of
                         (Inl e, h') \<Rightarrow>
                           (None, record_effect
                              (ConsoleError ''[EmbeddedMCP] Failed to save diagram to history:'' e)
                              (s2\<lparr>historyService := h'\<rparr>))
                       | (Inr savedId, h') \<Rightarrow>
                           (Some savedId,
                            record_effect
                              (ConsoleLog (''[EmbeddedMCP] Saved diagram '' @ [CHR 0x22] @ t
                                 @ [CHR 0x22] @ '' with ID '' @ savedId))
                              (s2\<lparr>historyService := h'\<rparr>))))))"

text \<open>The block "Notify renderer": the callback is called when it is set and
  \<open>diagramId\<close> and \<open>title\<close> are truthy. The call is recorded; it may throw.\<close>

definition notifyRenderer :: "string \<Rightarrow> string option \<Rightarrow> string option \<Rightarrow> 'h Server
    \<Rightarrow> Thrown option \<times> 'h Server" where
  "notifyRenderer dia title diagramId s =
     (case onDiagramUpdate s of
        None \<Rightarrow> (None, s)
      | Some handler \<Rightarrow>
          if truthy diagramId \<and> truthy title then
            (case (title, diagramId) of
               (Some t, Some i) \<Rightarrow> (handler dia t i, record_effect (OnDiagramUpdateCall dia t i) s)
             | _ \<Rightarrow> (None, s))
          else (None, s))"

text \<open>The result the outer \<open>catch\<close> of \<open>renderMermaid\<close> builds from what was thrown.\<close>

definition renderFailure :: "string \<Rightarrow> Thrown \<Rightarrow> RenderResult" where
  "renderFailure dia e =
     \<lparr>result_type = RError, result_diagram = dia, result_svg = None,
      result_error = Some (errorMessage ''Failed to render diagram'' e)\<rparr>"

text \<open>
  \<open>renderMermaid\<close>. The outer \<open>try\<close> spans the renderer call, the save block, the
  notification and \<open>focusWindow\<close>: a throw of any of them (the save block throws
  nothing, it catches) ends in the \<open>catch\<close>, with the state reached so far.
\<close>

definition renderMermaid :: "'h Collaborators \<Rightarrow> string \<Rightarrow> string option \<Rightarrow> string option
    \<Rightarrow> 'h Server \<Rightarrow> RenderResult \<times> 'h Server" where
  "renderMermaid env dia background title s =
     (let s0 = record_effect (RenderCall dia background) s in
      case render env dia background of
        Inl e \<Rightarrow> (renderFailure dia e, s0)
      | Inr result \<Rightarrow>
          if result_type result = RError then (result, s0)
          else
            (let (diagramId, s1) = saveToHistory env dia title s0 in
             case andThen (notifyRenderer dia title diagramId s1) (focusWindow env) of
               (Some e, s3) \<Rightarrow> (renderFailure dia e, s3)
             | (None, s3) \<Rightarrow> (result\<lparr>result_type := RSuccess\<rparr>, s3)))"

text \<open>\<open>openUI\<close>: \<open>autoOpen\<close> defaults to true; a throw of \<open>focusWindow\<close> leaves
  the method.\<close>

definition openUI :: "'h Collaborators \<Rightarrow> bool option \<Rightarrow> 'h Server
    \<Rightarrow> (Thrown + string) \<times> 'h Server" where
  "openUI env autoOpen s =
     (let auto = (case autoOpen of None \<Rightarrow> True | Some b \<Rightarrow> b)
      in if auto then
           (case focusWindow env s of
              (Some e, s') \<Rightarrow> (Inl e, s')
            | (None, s') \<Rightarrow> (Inr ''Mindpilot window focused'', s'))
         else (Inr ''Mindpilot window focused'', s))"

text \<open>The arguments of a tool call, each possibly absent; \<open>diagram\<close> is passed on as
  the string the handler casts it to.\<close>

record ToolArguments =
  arg_diagram :: string
  arg_background :: "string option"
  arg_title :: "string option"
  arg_autoOpen :: "bool option"

record TextContent =
  content_type :: string
  content_text :: string

text \<open>The \<open>try\<close> body of the CallTool handler: the switch over the tool name. Its
  default branch throws.\<close>

definition callTool_switch :: "'h Collaborators \<Rightarrow> string \<Rightarrow> ToolArguments \<Rightarrow> 'h Server
    \<Rightarrow> (Thrown + TextContent list) \<times> 'h Server" where
  "callTool_switch env name args s =
     (if name = ''render_mermaid'' then
        (let (renderResult, s') =
               renderMermaid env (arg_diagram args) (arg_background args) (arg_title args) s
         in (Inr [\<lparr>content_type = ''text'',
                    content_text = stringify env (RenderResultObject renderResult) 2\<rparr>], s'))
      else if name = ''open_ui'' then
        (case openUI env (arg_autoOpen args) s of
           (Inl e, s') \<Rightarrow> (Inl e, s')
         | (Inr uiResult, s') \<Rightarrow>
             (Inr [\<lparr>content_type = ''text'',
                    content_text = stringify env (MessageObject uiResult) 2\<rparr>], s'))
      else (Inl (JsError (''Unknown tool: '' @ name)), s))"

text \<open>The handler: the switch, and the \<open>catch\<close> that turns a throw into a response.\<close>

definition callTool :: "'h Collaborators \<Rightarrow> string \<Rightarrow> ToolArguments \<Rightarrow> 'h Server
    \<Rightarrow> TextContent list \<times> 'h Server" where
  "callTool env name args s =
     (case callTool_switch env name args s of
        (Inr response, s') \<Rightarrow> (response, s')
      | (Inl e, s') \<Rightarrow>
          ([\<lparr>content_type = ''text'',
             content_text = stringify env (ErrorObject (errorMessage ''Unknown error'' e)) 0\<rparr>], s'))"

section \<open>Renderer process requests: initializeIPCHandlers (electron/ipc/handlers.ts)\<close>

text \<open>The module keeps one history service; \<open>console.error\<close> calls are recorded.\<close>

record 'h IpcMain =
  ipcHistory :: 'h
  ipcConsole :: "Effect list"

record IpcRenderReply =
  reply_result :: RenderResult
  reply_diagramId :: "string option"

text \<open>
  The DIAGRAM_RENDER handler. The renderer is called outside any \<open>try\<close>, so its throw
  rejects the request; the save sits in a \<open>try/catch\<close> that logs. With a save the
  reply is \<open>{...result, diagramId}\<close>, otherwise the result alone.
\<close>

definition diagramRender :: "'h Collaborators \<Rightarrow> string \<Rightarrow> string option \<Rightarrow> string option
    \<Rightarrow> string option \<Rightarrow> 'h IpcMain \<Rightarrow> (Thrown + IpcRenderReply) \<times> 'h IpcMain" where
  "diagramRender env dia background workingDir title m =
     (case render env dia background of
        Inl e \<Rightarrow> (Inl e, m)
      | Inr result \<Rightarrow>
          if result_type result = RSuccess \<and> truthy workingDir \<and> truthy title then
            (case (workingDir, title) of
               (Some wd, Some t) \<Rightarrow>
                 (case detectGitRepo env wd of
                    Inl e \<Rightarrow>
                      (Inr \<lparr>reply_result = result, reply_diagramId = None\<rparr>,
                       m\<lparr>ipcConsole := ipcConsole m
                            @ [ConsoleError ''Failed to save diagram to history:'' e]\<rparr>)
                  | Inr collection \<Rightarrow>
                      (case saveDiagram env dia t collection (ipcHistory m) of
                         (Inl e, h') \<Rightarrow>
                           (Inr \<lparr>reply_result = result, reply_diagramId = None\<rparr>,
                            m\<lparr>ipcHistory := h',
                              ipcConsole := ipcConsole m
                                 @ [ConsoleError ''Failed to save diagram to history:'' e]\<rparr>)
                       | (Inr savedId, h') \<Rightarrow>
                           (Inr \<lparr>reply_result = result, reply_diagramId = Some savedId\<rparr>,
                            m\<lparr>ipcHistory := h'\<rparr>)))
             | _ \<Rightarrow> (Inr \<lparr>reply_result = result, reply_diagramId = None\<rparr>, m))
          else (Inr \<lparr>reply_result = result, reply_diagramId = None\<rparr>, m))"

text \<open>The HISTORY_SAVE handler returns what \<open>saveDiagram\<close> returns; its throw rejects
  the request.\<close>

definition historySave :: "'h Collaborators \<Rightarrow> string \<Rightarrow> string \<Rightarrow> string option
    \<Rightarrow> 'h IpcMain \<Rightarrow> (Thrown + string) \<times> 'h IpcMain" where
  "historySave env dia title collection m =
     (case saveDiagram env dia title collection (ipcHistory m) of
        (r, h') \<Rightarrow> (r, m\<lparr>ipcHistory := h'\<rparr>))"

section \<open>Desktop shell: the diagram update relay (electron/main.ts, electron/window.ts)\<close>

text \<open>
  window.ts keeps one module variable, \<open>mainWindow\<close>, which is a window or null.
  \<open>createMainWindow\<close> stores a new window there (created with \<open>show: false\<close>); the
  window's \<open>closed\<close> event sets the variable back to null. A window can already be
  destroyed while the variable still holds it.
\<close>

record Main =
  mainWindow :: "BrowserWindow option"

definition createMainWindow :: "Main \<Rightarrow> Main" where
  "createMainWindow m =
     m\<lparr>mainWindow := Some \<lparr>minimized = False, shown = False, focused = False,
                            destroyed = False, received = []\<rparr>\<rparr>"

definition onClosed :: "Main \<Rightarrow> Main" where
  "onClosed m = m\<lparr>mainWindow := None\<rparr>"

definition destroyWindow :: "Main \<Rightarrow> Main" where
  "destroyWindow m =
     (case mainWindow m of
        None \<Rightarrow> m
      | Some w \<Rightarrow> m\<lparr>mainWindow := Some (w\<lparr>destroyed := True\<rparr>)\<rparr>)"

text \<open>
  The callback \<open>initialize\<close> gives to \<open>setDiagramUpdateHandler\<close>: one
  \<open>webContents.send\<close> to the main window, when there is one and it is not destroyed.
  A send appends the payload to what that window has received.
\<close>

definition diagramUpdateHandler :: "string \<Rightarrow> string \<Rightarrow> string \<Rightarrow> Main \<Rightarrow> Main" where
  "diagramUpdateHandler dia title i m =
     (case mainWindow m of
        None \<Rightarrow> m
      | Some w \<Rightarrow>
          if \<not> destroyed w then
            m\<lparr>mainWindow := Some (w\<lparr>received := received w
                 @ [\<lparr>update_diagram = dia, update_title = title, update_id = i\<rparr>]\<rparr>)\<rparr>
          else m)"

text \<open>The viewers the relay reaches at a given moment, and what they have received.\<close>

definition registered :: "Main \<Rightarrow> BrowserWindow list" where
  "registered m =
     (case mainWindow m of
        None \<Rightarrow> []
      | Some w \<Rightarrow> if destroyed w then [] else [w])"

definition deliveries :: "Main \<Rightarrow> nat" where
  "deliveries m = (case mainWindow m of None \<Rightarrow> 0 | Some w \<Rightarrow> length (received w))"

text \<open>A run of the relay: updates arriving one after the other.\<close>

fun broadcastAll :: "DiagramUpdate list \<Rightarrow> Main \<Rightarrow> Main" where
  "broadcastAll [] m = m"
| "broadcastAll (u # us) m =
     broadcastAll us (diagramUpdateHandler (update_diagram u) (update_title u) (update_id u) m)"

section \<open>Broadcast hub\<close>

text \<open>
  Modelled from the spec: the \<open>BroadcastHub\<close> of section 4.2, the server side that
  holds the live viewer connections, is not among the sources (the sources have the
  viewer's callback and the desktop relay). A connection is named by a number. The hub
  keeps the connections registered now, and every delivery made: the connection and the
  event sent on it.
\<close>

record BroadcastHub =
  connections :: "nat list"
  delivered :: "(nat \<times> Envelope) list"

text \<open>Modelled from the spec: a hub with no viewer.\<close>

definition emptyHub :: BroadcastHub where
  "emptyHub = \<lparr>connections = [], delivered = []\<rparr>"

text \<open>Modelled from the spec: \<open>registerConnection(transport)\<close> adds a viewer.\<close>

definition registerConnection :: "nat \<Rightarrow> BroadcastHub \<Rightarrow> BroadcastHub" where
  "registerConnection c h =
     (if c \<in> set (connections h) then h else h\<lparr>connections := connections h @ [c]\<rparr>)"

text \<open>Modelled from the spec: a transport that disconnects leaves the set; the other
  connections stay.\<close>

definition unregisterConnection :: "nat \<Rightarrow> BroadcastHub \<Rightarrow> BroadcastHub" where
  "unregisterConnection c h = h\<lparr>connections := filter (\<lambda>k. k \<noteq> c) (connections h)\<rparr>"

text \<open>Modelled from the spec: \<open>broadcast(event)\<close> delivers the event to every viewer
  registered at call time, over a snapshot of the connection set.\<close>

definition broadcast :: "Envelope \<Rightarrow> BroadcastHub \<Rightarrow> BroadcastHub" where
  "broadcast e h = h\<lparr>delivered := delivered h @ map (\<lambda>c. (c, e)) (connections h)\<rparr>"

text \<open>Modelled from the spec: what one viewer has received, in the order of delivery.\<close>

definition inbox :: "nat \<Rightarrow> BroadcastHub \<Rightarrow> Envelope list" where
  "inbox c h = map snd (filter (\<lambda>d. fst d = c) (delivered h))"

text \<open>Modelled from the spec: what happens to a hub, one event after the other.\<close>

datatype HubEvent = Register nat | Unregister nat | Broadcast Envelope

fun hubStep :: "HubEvent \<Rightarrow> BroadcastHub \<Rightarrow> BroadcastHub" where
  "hubStep (Register c) h = registerConnection c h"
| "hubStep (Unregister c) h = unregisterConnection c h"
| "hubStep (Broadcast e) h = broadcast e h"

fun hubRun :: "HubEvent list \<Rightarrow> BroadcastHub \<Rightarrow> BroadcastHub" where
  "hubRun [] h = h"
| "hubRun (ev # evs) h = hubRun evs (hubStep ev h)"

section \<open>History store (shared/historyService.ts)\<close>

text \<open>
  Modelled from the spec: the class \<open>HistoryService\<close> of shared/historyService.ts is
  not among the sources (only its callers are), so the store below follows sections 3
  and 4.3 of the specification. Ids are the natural numbers in the order of issue: the
  store counts the ids it has issued, which makes each new id one that was never used.
\<close>

text \<open>Modelled from the spec: the error taxonomy of the history operations
  (section 7).\<close>

datatype StoreError = StorageError | NotFoundError | ConflictError

text \<open>Modelled from the spec: \<open>DiagramEntry\<close>, the persisted unit (section 3):
  id, diagram source, title, nullable collection, and the two timestamps.\<close>

record DiagramEntry =
  entry_id :: nat
  entry_diagram :: string
  entry_title :: string
  entry_collection :: "string option"
  createdAt :: nat
  updatedAt :: nat

text \<open>Modelled from the spec: the state the store owns, the entries in insertion
  order, the collection names, and the number of ids issued so far.\<close>

record HistoryStore =
  entries :: "DiagramEntry list"
  collections :: "string list"
  issued :: nat

text \<open>Modelled from the spec: what a call finds outside the store, the clock and
  whether the backing file can be written.\<close>

record Backing =
  now :: nat
  writable :: bool

text \<open>Modelled from the spec: the store before any call.\<close>

definition emptyStore :: HistoryStore where
  "emptyStore = \<lparr>entries = [], collections = [], issued = 0\<rparr>"

text \<open>Modelled from the spec: a collection is created implicitly when an entry first
  refers to it.\<close>

definition referenceCollection :: "string option \<Rightarrow> string list \<Rightarrow> string list" where
  "referenceCollection c cs =
     (case c of None \<Rightarrow> cs | Some n \<Rightarrow> if n \<in> set cs then cs else cs @ [n])"

text \<open>Modelled from the spec: \<open>saveDiagram(diagram, title, collection)\<close> creates an
  entry with a freshly generated id and fails with \<open>StorageError\<close> when the backing file
  cannot be written, leaving the store as it was.\<close>

definition store_saveDiagram :: "string \<Rightarrow> string \<Rightarrow> string option \<Rightarrow> Backing \<Rightarrow> HistoryStore
    \<Rightarrow> StoreError + (DiagramEntry \<times> HistoryStore)" where
  "store_saveDiagram dia title collection b st =
     (if \<not> writable b then Inl StorageError
      else
        (let e = \<lparr>entry_id = issued st, entry_diagram = dia, entry_title = title,
                  entry_collection = collection, createdAt = now b, updatedAt = now b\<rparr>
         in Inr (e, st\<lparr>entries := entries st @ [e],
                       collections := referenceCollection collection (collections st),
                       issued := Suc (issued st)\<rparr>)))"

text \<open>Modelled from the spec: \<open>getDiagrams(collection?)\<close> returns all entries in
  insertion order, or those of the given collection.\<close>

definition getDiagrams :: "string option \<Rightarrow> HistoryStore \<Rightarrow> DiagramEntry list" where
  "getDiagrams collection st =
     (case collection of
        None \<Rightarrow> entries st
      | Some c \<Rightarrow> filter (\<lambda>e. entry_collection e = Some c) (entries st))"

text \<open>Modelled from the spec: the partial fields of an update; an absent field is
  \<open>None\<close>, and a supplied collection may itself be null.\<close>

record PartialFields =
  new_title :: "string option"
  new_collection :: "string option option"
  new_diagram :: "string option"

text \<open>Modelled from the spec: an update sets the supplied fields and refreshes
  \<open>updatedAt\<close>.\<close>

definition applyFields :: "PartialFields \<Rightarrow> nat \<Rightarrow> DiagramEntry \<Rightarrow> DiagramEntry" where
  "applyFields p t e =
     e\<lparr>entry_title := (case new_title p of None \<Rightarrow> entry_title e | Some x \<Rightarrow> x),
       entry_collection := (case new_collection p of None \<Rightarrow> entry_collection e | Some c \<Rightarrow> c),
       entry_diagram := (case new_diagram p of None \<Rightarrow> entry_diagram e | Some d \<Rightarrow> d),
       updatedAt := t\<rparr>"

text \<open>Modelled from the spec: \<open>updateDiagram(id, partialFields)\<close> mutates the
  supplied fields of the entry with that id and refreshes \<open>updatedAt\<close>; it fails with
  \<open>NotFoundError\<close> when no entry has the id.\<close>

definition updateDiagram :: "nat \<Rightarrow> PartialFields \<Rightarrow> Backing \<Rightarrow> HistoryStore
    \<Rightarrow> StoreError + HistoryStore" where
  "updateDiagram i p b st =
     (if i \<notin> set (map entry_id (entries st)) then Inl NotFoundError
      else if \<not> writable b then Inl StorageError
      else Inr (st\<lparr>entries := map (\<lambda>e. if entry_id e = i then applyFields p (now b) e else e)
                                   (entries st),
                    collections := (case new_collection p of
                                      None \<Rightarrow> collections st
                                    | Some c \<Rightarrow> referenceCollection c (collections st))\<rparr>))"

text \<open>Modelled from the spec: \<open>deleteDiagram(id)\<close> removes the entry; deleting an id
  that no entry has fails with \<open>NotFoundError\<close>.\<close>

definition deleteDiagram :: "nat \<Rightarrow> Backing \<Rightarrow> HistoryStore \<Rightarrow> StoreError + HistoryStore" where
  "deleteDiagram i b st =
     (if i \<notin> set (map entry_id (entries st)) then Inl NotFoundError
      else if \<not> writable b then Inl StorageError
      else Inr (st\<lparr>entries := filter (\<lambda>e. entry_id e \<noteq> i) (entries st)\<rparr>))"

text \<open>Modelled from the spec: \<open>moveDiagram(id, collection)\<close> is the update of the
  collection alone.\<close>

definition moveDiagram :: "nat \<Rightarrow> string option \<Rightarrow> Backing \<Rightarrow> HistoryStore
    \<Rightarrow> StoreError + HistoryStore" where
  "moveDiagram i c b st =
     updateDiagram i \<lparr>new_title = None, new_collection = Some c, new_diagram = None\<rparr> b st"

text \<open>Modelled from the spec: \<open>createCollection(name)\<close> fails with \<open>ConflictError\<close>
  when the name exists.\<close>

definition createCollection :: "string \<Rightarrow> Backing \<Rightarrow> HistoryStore \<Rightarrow> StoreError + HistoryStore" where
  "createCollection name b st =
     (if name \<in> set (collections st) then Inl ConflictError
      else if \<not> writable b then Inl StorageError
      else Inr (st\<lparr>collections := collections st @ [name]\<rparr>))"

text \<open>Modelled from the spec: the mutating calls of section 4.3 as values.\<close>

datatype Operation =
    SaveDiagram string string "string option"
  | UpdateDiagram nat PartialFields
  | DeleteDiagram nat
  | MoveDiagram nat "string option"
  | CreateCollection string

text \<open>Modelled from the spec: what a caller sees of a call, the saved entry, a plain
  success, or the error.\<close>

datatype Outcome = Saved DiagramEntry | Done | Failed StoreError

text \<open>Modelled from the spec: a failed call abandons its mutation and leaves the store
  as it was.\<close>

definition settle :: "HistoryStore \<Rightarrow> StoreError + HistoryStore \<Rightarrow> Outcome \<times> HistoryStore" where
  "settle st r = (case r of Inl err \<Rightarrow> (Failed err, st) | Inr st' \<Rightarrow> (Done, st'))"

text \<open>Modelled from the spec: one call, dispatched to the operation it names.\<close>

fun perform :: "Operation \<Rightarrow> Backing \<Rightarrow> HistoryStore \<Rightarrow> Outcome \<times> HistoryStore" where
  "perform (SaveDiagram dia title collection) b st =
     (case store_saveDiagram dia title collection b st of
        Inl err \<Rightarrow> (Failed err, st)
      | Inr (e, st') \<Rightarrow> (Saved e, st'))"
| "perform (UpdateDiagram i p) b st = settle st (updateDiagram i p b st)"
| "perform (DeleteDiagram i) b st = settle st (deleteDiagram i b st)"
| "perform (MoveDiagram i c) b st = settle st (moveDiagram i c b st)"
| "perform (CreateCollection name) b st = settle st (createCollection name b st)"

text \<open>Modelled from the spec: a caller that makes the calls one after the other
  (mutating calls are serialized), each with the clock and file state it finds.\<close>

fun run :: "(Operation \<times> Backing) list \<Rightarrow> HistoryStore \<Rightarrow> Outcome list \<times> HistoryStore" where
  "run [] st = ([], st)"
| "run ((operation, b) # rest) st =
     (let (out, st1) = perform operation b st;
          (outs, st2) = run rest st1
      in (out # outs, st2))"

text \<open>Modelled from the spec: the ids of the entries that the saves of a run
  returned.\<close>

fun savedIds :: "Outcome list \<Rightarrow> nat list" where
  "savedIds [] = []"
| "savedIds (Saved e # outs) = entry_id e # savedIds outs"
| "savedIds (other # outs) = savedIds outs"

section \<open>History service as the handlers call it\<close>

text \<open>Modelled from the spec: an error of the store reaches a JavaScript caller as a
  thrown \<open>Error\<close>, here with the error's name as message.\<close>

definition storeErrorThrown :: "StoreError \<Rightarrow> Thrown" where
  "storeErrorThrown err =
     JsError (case err of
                StorageError \<Rightarrow> ''StorageError''
              | NotFoundError \<Rightarrow> ''NotFoundError''
              | ConflictError \<Rightarrow> ''ConflictError'')"

text \<open>Modelled from the spec: the id is opaque; the handlers hold it as a string, here
  the decimal digits of the store's number.\<close>

fun idString :: "nat \<Rightarrow> string" where
  "idString n =
     (if n < 10 then [''0123456789'' ! n]
      else idString (n div 10) @ [''0123456789'' ! (n mod 10)])"

text \<open>Modelled from the spec: \<open>historyService.saveDiagram\<close> over the store, at a
  given clock and file state: the id of the new entry, or the error thrown with the
  store as it was.\<close>

definition service_saveDiagram :: "Backing \<Rightarrow> string \<Rightarrow> string \<Rightarrow> string option
    \<Rightarrow> HistoryStore \<Rightarrow> (Thrown + string) \<times> HistoryStore" where
  "service_saveDiagram b dia title collection st =
     (case store_saveDiagram dia title collection b st of
        Inl err \<Rightarrow> (Inl (storeErrorThrown err), st)
      | Inr (e, st') \<Rightarrow> (Inr (idString (entry_id e)), st'))"

section \<open>Notions used in the statements\<close>

text \<open>Rendering fails when the shared renderer throws or returns a result of type
  \<open>error\<close>; \<open>errorResult\<close> is the error a caller then gets: the renderer's own result, or
  the one \<open>renderMermaid\<close> builds from the thrown value.\<close>

definition renderFails :: "'h Collaborators \<Rightarrow> string \<Rightarrow> string option \<Rightarrow> bool" where
  "renderFails env dia background =
     (case render env dia background of
        Inl e \<Rightarrow> True
      | Inr result \<Rightarrow> result_type result = RError)"

definition errorResult :: "'h Collaborators \<Rightarrow> string \<Rightarrow> string option \<Rightarrow> RenderResult" where
  "errorResult env dia background =
     (case render env dia background of
        Inl e \<Rightarrow> renderFailure dia e
      | Inr result \<Rightarrow> result)"

text \<open>For the history store: ids are distinct and below the count of issued ids; an
  id is retired when it was issued and no entry has it; an updated entry differs from the
  old one in the supplied fields and \<open>updatedAt\<close> only; the update of the title alone.\<close>

definition wellFormed :: "HistoryStore \<Rightarrow> bool" where
  "wellFormed st =
     (distinct (map entry_id (entries st))
      \<and> list_all (\<lambda>e. entry_id e < issued st) (entries st))"

definition retired :: "nat \<Rightarrow> HistoryStore \<Rightarrow> bool" where
  "retired i st = (i < issued st \<and> i \<notin> set (map entry_id (entries st)))"

definition suppliedFieldsOnly :: "PartialFields \<Rightarrow> nat \<Rightarrow> DiagramEntry \<Rightarrow> DiagramEntry \<Rightarrow> bool" where
  "suppliedFieldsOnly p t e e' =
     (entry_id e' = entry_id e
      \<and> createdAt e' = createdAt e
      \<and> updatedAt e' = t
      \<and> entry_title e' = (case new_title p of None \<Rightarrow> entry_title e | Some x \<Rightarrow> x)
      \<and> entry_collection e' = (case new_collection p of None \<Rightarrow> entry_collection e | Some c \<Rightarrow> c)
      \<and> entry_diagram e' = (case new_diagram p of None \<Rightarrow> entry_diagram e | Some d \<Rightarrow> d))"

definition titleOnly :: "string \<Rightarrow> PartialFields" where
  "titleOnly t2 = \<lparr>new_title = Some t2, new_collection = None, new_diagram = None\<rparr>"

section \<open>Sample values\<close>

text \<open>Sample collaborators: the history service is the store at clock 7, writable or
  not; Electron never throws; the callback returns.\<close>

definition sampleEnv :: "(Thrown + RenderResult) \<Rightarrow> bool \<Rightarrow> HistoryStore Collaborators" where
  "sampleEnv rendered canSave =
     \<lparr>render = (\<lambda>dia background. rendered),
      cwd = Inr ''/home/user/project'',
      detectGitRepo = (\<lambda>dir. Inr (Some ''mindpilot-mcp'')),
      saveDiagram = service_saveDiagram \<lparr>now = 7, writable = canSave\<rparr>,
      electronThrows = (\<lambda>call windows. None),
      stringify = (\<lambda>payload indent. case payload of
                     RenderResultObject r \<Rightarrow>
                       (case result_type r of
                          RSuccess \<Rightarrow> ''success result''
                        | RError \<Rightarrow> ''error result'')
                   | MessageObject m \<Rightarrow> m
                   | ErrorObject m \<Rightarrow> ''error: '' @ m)\<rparr>"

definition sampleServer :: "HistoryStore Server" where
  "sampleServer =
     \<lparr>historyService = emptyStore, onDiagramUpdate = Some (\<lambda>dia title i. None),
      allWindows = [\<lparr>minimized = True, shown = False, focused = False, destroyed = False,
                     received = []\<rparr>],
      isRunning = True, journal = []\<rparr>"

definition sampleSvg :: RenderResult where
  "sampleSvg = \<lparr>result_type = RSuccess, result_diagram = ''graph TD;A-->B'',
                 result_svg = Some ''<svg/>'', result_error = None\<rparr>"

definition sampleRejected :: RenderResult where
  "sampleRejected = \<lparr>result_type = RError, result_diagram = ''graph TD;A--'',
                      result_svg = None, result_error = Some ''Parse error on line 1''\<rparr>"

definition sampleIpc :: "HistoryStore IpcMain" where
  "sampleIpc = \<lparr>ipcHistory = emptyStore, ipcConsole = []\<rparr>"

definition noWindow :: Main where
  "noWindow = \<lparr>mainWindow = None\<rparr>"

definition sampleUpdates :: "DiagramUpdate list" where
  "sampleUpdates =
     [\<lparr>update_diagram = ''graph TD;A-->B'', update_title = ''flow'', update_id = ''id-1''\<rparr>,
      \<lparr>update_diagram = ''graph LR;X-->Y'', update_title = ''other'', update_id = ''id-2''\<rparr>]"

definition sampleEnvelope :: Envelope where
  "sampleEnvelope = \<lparr>data_type = ''render_result'', data_diagram = Some ''graph TD;A-->B''\<rparr>"

definition sampleBacking :: Backing where
  "sampleBacking = \<lparr>now = 7, writable = True\<rparr>"

definition sampleStore :: HistoryStore where
  "sampleStore =
     snd (run [(SaveDiagram ''graph TD;A-->B'' ''flow'' None, \<lparr>now = 1, writable = True\<rparr>),
               (SaveDiagram ''graph LR;X-->Y'' ''other'' (Some ''project-x''),
                \<lparr>now = 2, writable = True\<rparr>)] emptyStore)"

section \<open>Viewer: properties\<close>

text \<open>
  C7. An envelope whose type is neither \<open>render_result\<close> nor \<open>visibility_query\<close>
  leaves the whole component state as it was: the diagram is unchanged, nothing is
  sent, no timeout is scheduled. The callback has no failing branch, so it returns.
\<close>

theorem onMessage_unknown_type_ignored:
  assumes "data_type data \<noteq> ''render_result''"
    and "data_type data \<noteq> ''visibility_query''"
  shows "onMessage document data app = app"
  using assms by (simp add: onMessage_def)

theorem onMessage_unknown_type_ignored_witness:
  "onMessage \<lparr>hidden = False, hasFocus = True\<rparr>
     \<lparr>data_type = ''ping'', data_diagram = Some ''graph TD;A-->B''\<rparr>
     (initialApp\<lparr>diagram := ''graph LR;X-->Y''\<rparr>)
   = initialApp\<lparr>diagram := ''graph LR;X-->Y''\<rparr>"
  by (rule onMessage_unknown_type_ignored) simp_all

text \<open>
  A \<open>render_result\<close> whose diagram field is present but empty is not adopted: the
  guard \<open>data.diagram\<close> is falsy for the empty string, so the diagram shown before stays.
\<close>

theorem onMessage_empty_diagram_counterexample:
  "diagram (onMessage \<lparr>hidden = False, hasFocus = True\<rparr>
       \<lparr>data_type = ''render_result'', data_diagram = Some []\<rparr>
       (initialApp\<lparr>diagram := ''graph TD;A-->B''\<rparr>)) \<noteq> []"
  by (simp add: onMessage_def truthy_def initialApp_def)

text \<open>
  C5 (amended). On a message of type \<open>render_result\<close> whose diagram field is a
  non-empty string, the component's diagram becomes that string and nothing is sent:
  the viewer made no request. When the diagram field is absent or empty the message
  leaves the component state as it was.
\<close>

theorem onMessage_render_result_adopted:
  assumes "data_type data = ''render_result''"
  shows "(\<forall>d. data_diagram data = Some d \<and> d \<noteq> [] \<longrightarrow>
            diagram (onMessage document data app) = d
          \<and> sent (onMessage document data app) = sent app)
       \<and> (\<not> truthy (data_diagram data) \<longrightarrow> onMessage document data app = app)"
  using assms by (simp add: onMessage_def truthy_def)

theorem onMessage_render_result_adopted_witness:
  "diagram (onMessage \<lparr>hidden = True, hasFocus = False\<rparr>
       \<lparr>data_type = ''render_result'', data_diagram = Some ''graph TD;A-->B''\<rparr> initialApp)
     = ''graph TD;A-->B''
   \<and> sent (onMessage \<lparr>hidden = True, hasFocus = False\<rparr>
       \<lparr>data_type = ''render_result'', data_diagram = Some ''graph TD;A-->B''\<rparr> initialApp)
     = sent initialApp
   \<and> onMessage \<lparr>hidden = True, hasFocus = False\<rparr>
       \<lparr>data_type = ''render_result'', data_diagram = None\<rparr> initialApp = initialApp"
  using onMessage_render_result_adopted
          [of "\<lparr>data_type = ''render_result'', data_diagram = Some ''graph TD;A-->B''\<rparr>"
              "\<lparr>hidden = True, hasFocus = False\<rparr>" initialApp]
        onMessage_render_result_adopted
          [of "\<lparr>data_type = ''render_result'', data_diagram = None\<rparr>"
              "\<lparr>hidden = True, hasFocus = False\<rparr>" initialApp]
  by (simp add: truthy_def)

text \<open>
  A page that is visible but not focused answers \<open>isVisible = true\<close>: the answer is
  not the focus state.
\<close>

theorem onMessage_visible_without_focus_counterexample:
  "hasFocus \<lparr>hidden = False, hasFocus = False\<rparr> = False
   \<and> sent (onMessage \<lparr>hidden = False, hasFocus = False\<rparr>
           \<lparr>data_type = ''visibility_query'', data_diagram = None\<rparr> initialApp)
     = [\<lparr>out_type = ''visibility_response'', isVisible = True\<rparr>]"
  by (simp add: onMessage_def send_def initialApp_def)

text \<open>
  C6 (amended). On a message of type \<open>visibility_query\<close> the callback reads the page
  visibility \<open>document.hidden\<close> and, in the same call, sends one message of type
  \<open>visibility_response\<close> whose \<open>isVisible\<close> is the negation of \<open>document.hidden\<close>;
  the diagram is not touched. Window focus is not consulted: the callback does the same
  whatever the focus state is.
\<close>

theorem onMessage_visibility_query_answered:
  assumes "data_type data = ''visibility_query''"
  shows "sent (onMessage document data app)
           = sent app @ [\<lparr>out_type = ''visibility_response'', isVisible = \<not> hidden document\<rparr>]
       \<and> diagram (onMessage document data app) = diagram app
       \<and> onMessage (document\<lparr>hasFocus := f\<rparr>) data app = onMessage document data app"
  using assms by (simp add: onMessage_def send_def)

theorem onMessage_visibility_query_answered_witness:
  "sent (onMessage \<lparr>hidden = True, hasFocus = True\<rparr>
           \<lparr>data_type = ''visibility_query'', data_diagram = None\<rparr> initialApp)
     = [\<lparr>out_type = ''visibility_response'', isVisible = False\<rparr>]
   \<and> sent (onMessage \<lparr>hidden = False, hasFocus = False\<rparr>
           \<lparr>data_type = ''visibility_query'', data_diagram = None\<rparr> initialApp)
     = [\<lparr>out_type = ''visibility_response'', isVisible = True\<rparr>]
   \<and> onMessage \<lparr>hidden = False, hasFocus = True\<rparr>
           \<lparr>data_type = ''visibility_query'', data_diagram = None\<rparr> initialApp
     = onMessage \<lparr>hidden = False, hasFocus = False\<rparr>
           \<lparr>data_type = ''visibility_query'', data_diagram = None\<rparr> initialApp"
  using onMessage_visibility_query_answered
          [of "\<lparr>data_type = ''visibility_query'', data_diagram = None\<rparr>"
              "\<lparr>hidden = True, hasFocus = True\<rparr>" initialApp True]
        onMessage_visibility_query_answered
          [of "\<lparr>data_type = ''visibility_query'', data_diagram = None\<rparr>"
              "\<lparr>hidden = False, hasFocus = False\<rparr>" initialApp True]
  by (simp add: initialApp_def)

section \<open>Tool server: properties\<close>

lemma record_effect_fields [simp]:
  "historyService (record_effect e s) = historyService s"
  "journal (record_effect e s) = journal s @ [e]"
  "isRunning (record_effect e s) = isRunning s"
  "onDiagramUpdate (record_effect e s) = onDiagramUpdate s"
  "allWindows (record_effect e s) = allWindows s"
  by (simp_all add: record_effect_def)

lemma windowCall_fields [simp]:
  "historyService (snd (windowCall env call effect s)) = historyService s"
  "journal (snd (windowCall env call effect s)) = journal s"
  "isRunning (snd (windowCall env call effect s)) = isRunning s"
  "onDiagramUpdate (snd (windowCall env call effect s)) = onDiagramUpdate s"
  by (simp_all add: windowCall_def split: option.splits)

lemma andThen_keeps:
  assumes "\<And>s. sel (snd (f s)) = sel s"
  shows "sel (snd (andThen r f)) = sel (snd r)"
  using assms by (cases r) (simp add: andThen_def split: option.splits)

lemma focusWindow_keeps:
  assumes "\<And>call effect s. sel (snd (windowCall env call effect s)) = sel s"
  shows "sel (snd (focusWindow env s)) = sel s"
proof -
  have step: "\<And>firstWindow s1. sel (snd (
           andThen (windowCall env IsMinimized (\<lambda>w. w) s1) (\<lambda>s2.
           andThen (if minimized firstWindow
                    then windowCall env Restore (\<lambda>w. w\<lparr>minimized := False\<rparr>) s2
                    else (None, s2)) (\<lambda>s3.
           andThen (windowCall env ShowWindow (\<lambda>w. w\<lparr>shown := True\<rparr>) s3) (\<lambda>s4.
           windowCall env Focus (\<lambda>w. w\<lparr>focused := True\<rparr>) s4))))) = sel s1"
    by (simp add: andThen_keeps assms)
  show ?thesis
    unfolding focusWindow_def
    by (subst andThen_keeps) (simp_all add: assms step split: list.splits)
qed

lemma focusWindow_fields [simp]:
  "historyService (snd (focusWindow env s)) = historyService s"
  "journal (snd (focusWindow env s)) = journal s"
  "isRunning (snd (focusWindow env s)) = isRunning s"
  "onDiagramUpdate (snd (focusWindow env s)) = onDiagramUpdate s"
  by (rule focusWindow_keeps, simp)+

lemma windowCall_no_throw:
  assumes "electronThrows env = (\<lambda>call windows. None)"
  shows "fst (windowCall env call effect s) = None"
  using assms by (simp add: windowCall_def)

lemma andThen_no_throw:
  assumes "fst r = None" and "\<And>s. fst (f s) = None"
  shows "fst (andThen r f) = None"
  using assms by (cases r) (simp add: andThen_def)

lemma focusWindow_no_throw:
  assumes "electronThrows env = (\<lambda>call windows. None)"
  shows "fst (focusWindow env s) = None"
  unfolding focusWindow_def
  by (intro andThen_no_throw windowCall_no_throw [OF assms])
     (simp add: andThen_no_throw windowCall_no_throw [OF assms] split: list.splits)

lemma notifyRenderer_fields [simp]:
  "historyService (snd (notifyRenderer dia title i s)) = historyService s"
  "isRunning (snd (notifyRenderer dia title i s)) = isRunning s"
  by (simp_all add: notifyRenderer_def split: option.splits)

lemma saveToHistory_isRunning [simp]:
  "isRunning (snd (saveToHistory env dia title s)) = isRunning s"
  by (simp add: saveToHistory_def Let_def split: option.splits sum.splits prod.splits)

lemma finish_snd:
  "snd (case r of (Some e, s3) \<Rightarrow> (a e, s3) | (None, s3) \<Rightarrow> (b, s3)) = snd r"
  by (cases r) (simp split: option.splits)

lemma renderMermaid_isRunning [simp]:
  "isRunning (snd (renderMermaid env dia background title s)) = isRunning s"
proof (cases "render env dia background")
  case (Inl e)
  then show ?thesis by (simp add: renderMermaid_def Let_def)
next
  case (Inr result)
  obtain diagramId s1 where sv: "saveToHistory env dia title (record_effect (RenderCall dia background) s)
      = (diagramId, s1)" by (cases "saveToHistory env dia title (record_effect (RenderCall dia background) s)")
  have "isRunning s1 = isRunning s"
    using saveToHistory_isRunning [of env dia title "record_effect (RenderCall dia background) s"]
    by (simp add: sv)
  moreover have "isRunning (snd (andThen (notifyRenderer dia title diagramId s1) (focusWindow env)))
      = isRunning s1"
    by (simp add: andThen_keeps)
  ultimately show ?thesis
    using Inr by (simp add: renderMermaid_def Let_def sv finish_snd)
qed

lemma openUI_isRunning [simp]:
  "isRunning (snd (openUI env autoOpen s)) = isRunning s"
proof -
  have "isRunning (snd (focusWindow env s)) = isRunning s" by simp
  then show ?thesis
    by (cases "focusWindow env s") (simp add: openUI_def Let_def split: option.splits)
qed

lemma callTool_switch_isRunning:
  "isRunning (snd (callTool_switch env name args s)) = isRunning s"
proof -
  have u: "isRunning (snd (openUI env (arg_autoOpen args) s)) = isRunning s" by simp
  have r: "isRunning (snd (renderMermaid env (arg_diagram args) (arg_background args)
                             (arg_title args) s)) = isRunning s" by simp
  show ?thesis
    using u r
    by (cases "openUI env (arg_autoOpen args) s")
       (simp add: callTool_switch_def Let_def split_beta split: sum.splits)
qed

lemma callTool_isRunning:
  "isRunning (snd (callTool env name args s)) = isRunning s"
  using callTool_switch_isRunning [of env name args s]
  by (cases "callTool_switch env name args s") (simp add: callTool_def split: sum.splits)

text \<open>
  C10. A tool call whose name is neither \<open>render_mermaid\<close> nor \<open>open_ui\<close> returns
  one text content holding \<open>JSON.stringify({error: "Unknown tool: " + name})\<close> and
  leaves the server state as it was. Whatever the switch throws, the handler returns one
  text content holding the stringified \<open>{error: message}\<close>, with the message of the
  thrown \<open>Error\<close> or "Unknown error". The handler always returns a response, and the
  server's \<open>isRunning\<close> flag is the same after the call.
\<close>

theorem callTool_failure_is_error_response:
  "(name \<noteq> ''render_mermaid'' \<and> name \<noteq> ''open_ui'' \<longrightarrow>
      callTool env name args s
        = ([\<lparr>content_type = ''text'',
             content_text = stringify env (ErrorObject (''Unknown tool: '' @ name)) 0\<rparr>], s))
   \<and> (\<forall>e. fst (callTool_switch env name args s) = Inl e \<longrightarrow>
        fst (callTool env name args s)
          = [\<lparr>content_type = ''text'',
              content_text = stringify env (ErrorObject (errorMessage ''Unknown error'' e)) 0\<rparr>])
   \<and> isRunning (snd (callTool env name args s)) = isRunning s"
proof (intro conjI impI allI)
  assume "name \<noteq> ''render_mermaid'' \<and> name \<noteq> ''open_ui''"
  then show "callTool env name args s
        = ([\<lparr>content_type = ''text'',
             content_text = stringify env (ErrorObject (''Unknown tool: '' @ name)) 0\<rparr>], s)"
    by (simp add: callTool_def callTool_switch_def errorMessage_def)
next
  fix e
  assume "fst (callTool_switch env name args s) = Inl e"
  then show "fst (callTool env name args s)
          = [\<lparr>content_type = ''text'',
              content_text = stringify env (ErrorObject (errorMessage ''Unknown error'' e)) 0\<rparr>]"
    by (cases "callTool_switch env name args s") (simp add: callTool_def)
next
  show "isRunning (snd (callTool env name args s)) = isRunning s"
    by (rule callTool_isRunning)
qed

theorem callTool_failure_is_error_response_witness:
  "callTool (sampleEnv (Inr sampleSvg) True) ''delete_all''
      \<lparr>arg_diagram = [], arg_background = None, arg_title = None, arg_autoOpen = None\<rparr>
      sampleServer
     = ([\<lparr>content_type = ''text'', content_text = ''error: Unknown tool: delete_all''\<rparr>],
        sampleServer)
   \<and> fst (callTool_switch (sampleEnv (Inr sampleSvg) True) ''delete_all''
      \<lparr>arg_diagram = [], arg_background = None, arg_title = None, arg_autoOpen = None\<rparr>
      sampleServer) = Inl (JsError ''Unknown tool: delete_all'')"
  using callTool_failure_is_error_response
          [of "''delete_all''" "sampleEnv (Inr sampleSvg) True"
              "\<lparr>arg_diagram = [], arg_background = None, arg_title = None, arg_autoOpen = None\<rparr>"
              sampleServer]
  by (simp add: sampleEnv_def callTool_switch_def)

lemma renderMermaid_when_render_fails:
  assumes "renderFails env dia background"
  shows "renderMermaid env dia background title s
           = (errorResult env dia background, record_effect (RenderCall dia background) s)"
  using assms
  by (simp add: renderFails_def errorResult_def renderMermaid_def Let_def split: sum.splits)

lemma errorResult_is_error:
  assumes "renderFails env dia background"
  shows "result_type (errorResult env dia background) = RError"
  using assms
  by (simp add: renderFails_def errorResult_def renderFailure_def split: sum.splits)

lemma diagramRender_when_render_fails:
  assumes "renderFails env dia background"
  shows "diagramRender env dia background workingDir title m
           = (case render env dia background of
                Inl e \<Rightarrow> Inl e
              | Inr result \<Rightarrow> Inr \<lparr>reply_result = result, reply_diagramId = None\<rparr>, m)"
  using assms by (simp add: renderFails_def diagramRender_def split: sum.splits)

text \<open>
  C3. When rendering fails (the renderer throws, or returns a result of type
  \<open>error\<close>), \<open>renderMermaid\<close> returns an error result (from a throw: the diagram
  and the thrown message), it calls the renderer once and nothing else (no detector, no
  save, no update notification: the journal gains the one render call), and the history
  is as before; the \<open>render_mermaid\<close> tool answers with that error result,
  stringified. The DIAGRAM_RENDER handler passes the renderer's throw to its caller, or
  replies with the renderer's error result without a diagram id, and leaves its history
  and console as they were. Conversely, a history that changed means that rendering did
  not fail.
\<close>

theorem render_failure_persists_nothing:
  "(renderFails env dia background \<longrightarrow>
      renderMermaid env dia background title s
        = (errorResult env dia background, s\<lparr>journal := journal s @ [RenderCall dia background]\<rparr>)
    \<and> result_type (errorResult env dia background) = RError
    \<and> (\<forall>e. render env dia background = Inl e \<longrightarrow>
          result_error (errorResult env dia background)
            = Some (errorMessage ''Failed to render diagram'' e))
    \<and> fst (callTool env ''render_mermaid''
          \<lparr>arg_diagram = dia, arg_background = background, arg_title = title,
           arg_autoOpen = autoOpen\<rparr> s)
        = [\<lparr>content_type = ''text'',
            content_text = stringify env (RenderResultObject (errorResult env dia background)) 2\<rparr>]
    \<and> diagramRender env dia background workingDir title m
        = (case render env dia background of
             Inl e \<Rightarrow> Inl e
           | Inr result \<Rightarrow> Inr \<lparr>reply_result = result, reply_diagramId = None\<rparr>, m)
    \<and> (\<forall>result. render env dia background = Inr result \<longrightarrow> result_type result = RError))
   \<and> (historyService (snd (renderMermaid env dia background title s)) \<noteq> historyService s
        \<longrightarrow> \<not> renderFails env dia background)
   \<and> (ipcHistory (snd (diagramRender env dia background workingDir title m)) \<noteq> ipcHistory m
        \<longrightarrow> \<not> renderFails env dia background)"
proof (intro conjI impI allI)
  assume f: "renderFails env dia background"
  show "renderMermaid env dia background title s
        = (errorResult env dia background, s\<lparr>journal := journal s @ [RenderCall dia background]\<rparr>)"
    using renderMermaid_when_render_fails [OF f] by (simp add: record_effect_def)
  show "result_type (errorResult env dia background) = RError"
    by (rule errorResult_is_error [OF f])
  show "fst (callTool env ''render_mermaid''
          \<lparr>arg_diagram = dia, arg_background = background, arg_title = title,
           arg_autoOpen = autoOpen\<rparr> s)
        = [\<lparr>content_type = ''text'',
            content_text = stringify env (RenderResultObject (errorResult env dia background)) 2\<rparr>]"
    by (simp add: callTool_def callTool_switch_def renderMermaid_when_render_fails [OF f])
  show "diagramRender env dia background workingDir title m
        = (case render env dia background of
             Inl e \<Rightarrow> Inl e
           | Inr result \<Rightarrow> Inr \<lparr>reply_result = result, reply_diagramId = None\<rparr>, m)"
    by (rule diagramRender_when_render_fails [OF f])
next
  fix e
  assume "render env dia background = Inl e"
  then show "result_error (errorResult env dia background)
            = Some (errorMessage ''Failed to render diagram'' e)"
    by (simp add: errorResult_def renderFailure_def)
next
  fix result
  assume "renderFails env dia background" and "render env dia background = Inr result"
  then show "result_type result = RError"
    by (simp add: renderFails_def)
next
  assume changed: "historyService (snd (renderMermaid env dia background title s)) \<noteq> historyService s"
  show "\<not> renderFails env dia background"
  proof
    assume "renderFails env dia background"
    from renderMermaid_when_render_fails [OF this] changed show False by simp
  qed
next
  assume changed: "ipcHistory (snd (diagramRender env dia background workingDir title m)) \<noteq> ipcHistory m"
  show "\<not> renderFails env dia background"
  proof
    assume "renderFails env dia background"
    from diagramRender_when_render_fails [OF this] changed show False by simp
  qed
qed

lemma sampleSvg_type: "result_type sampleSvg = RSuccess"
  by (simp add: sampleSvg_def)

theorem render_failure_persists_nothing_witness:
  "renderFails (sampleEnv (Inl (JsError ''Parse error on line 1'')) True) ''graph TD;A--'' None
   \<and> renderMermaid (sampleEnv (Inl (JsError ''Parse error on line 1'')) True)
        ''graph TD;A--'' None (Some ''flow'') sampleServer
     = (\<lparr>result_type = RError, result_diagram = ''graph TD;A--'', result_svg = None,
         result_error = Some ''Parse error on line 1''\<rparr>,
        sampleServer\<lparr>journal := [RenderCall ''graph TD;A--'' None]\<rparr>)
   \<and> diagramRender (sampleEnv (Inl (JsError ''Parse error on line 1'')) True)
        ''graph TD;A--'' None (Some ''/srv/repo'') (Some ''flow'') sampleIpc
     = (Inl (JsError ''Parse error on line 1''), sampleIpc)
   \<and> diagramRender (sampleEnv (Inr sampleRejected) True)
        ''graph TD;A--'' None (Some ''/srv/repo'') (Some ''flow'') sampleIpc
     = (Inr \<lparr>reply_result = sampleRejected, reply_diagramId = None\<rparr>, sampleIpc)
   \<and> map entry_title (entries (historyService (snd (renderMermaid (sampleEnv (Inr sampleSvg) True)
        ''graph TD;A-->B'' None (Some ''flow'') sampleServer)))) = [''flow'']
   \<and> \<not> renderFails (sampleEnv (Inr sampleSvg) True) ''graph TD;A-->B'' None"
proof -
  let ?bad = "sampleEnv (Inl (JsError ''Parse error on line 1'')) True"
  let ?rejected = "sampleEnv (Inr sampleRejected) True"
  let ?good = "sampleEnv (Inr sampleSvg) True"
  have f: "renderFails ?bad ''graph TD;A--'' None"
    by (simp add: renderFails_def sampleEnv_def)
  have g: "renderFails ?rejected ''graph TD;A--'' None"
    by (simp add: renderFails_def sampleEnv_def sampleRejected_def)
  have e: "errorResult ?bad ''graph TD;A--'' None
      = \<lparr>result_type = RError, result_diagram = ''graph TD;A--'', result_svg = None,
         result_error = Some ''Parse error on line 1''\<rparr>"
    by (simp add: errorResult_def sampleEnv_def errorMessage_def renderFailure_def)
  have rb: "render ?bad ''graph TD;A--'' None = Inl (JsError ''Parse error on line 1'')"
    by (simp add: sampleEnv_def)
  have rr: "render ?rejected ''graph TD;A--'' None = Inr sampleRejected"
    by (simp add: sampleEnv_def)
  have sv: "saveToHistory ?good ''graph TD;A-->B'' (Some ''flow'')
              (record_effect (RenderCall ''graph TD;A-->B'' None) sampleServer)
      = (Some ''0'', sampleServer\<lparr>historyService :=
            \<lparr>entries = [\<lparr>entry_id = 0, entry_diagram = ''graph TD;A-->B'', entry_title = ''flow'',
                          entry_collection = Some ''mindpilot-mcp'', createdAt = 7, updatedAt = 7\<rparr>],
             collections = [''mindpilot-mcp''], issued = 1\<rparr>,
            journal := [RenderCall ''graph TD;A-->B'' None, DetectGitRepoCall ''/home/user/project'',
              SaveDiagramCall ''graph TD;A-->B'' ''flow'' (Some ''mindpilot-mcp''),
              ConsoleLog (''[EmbeddedMCP] Saved diagram '' @ [CHR 0x22] @ ''flow''
                                 @ [CHR 0x22] @ '' with ID 0'')]\<rparr>)"
    by (simp add: saveToHistory_def sampleEnv_def sampleServer_def Let_def record_effect_def
        service_saveDiagram_def store_saveDiagram_def emptyStore_def referenceCollection_def)
  have h: "map entry_title (entries (historyService (snd (renderMermaid ?good ''graph TD;A-->B''
              None (Some ''flow'') sampleServer)))) = [''flow'']"
  proof -
    have "render ?good ''graph TD;A-->B'' None = Inr sampleSvg"
      by (simp add: sampleEnv_def)
    then have "historyService (snd (renderMermaid ?good ''graph TD;A-->B'' None (Some ''flow'')
              sampleServer))
        = \<lparr>entries = [\<lparr>entry_id = 0, entry_diagram = ''graph TD;A-->B'', entry_title = ''flow'',
                          entry_collection = Some ''mindpilot-mcp'', createdAt = 7, updatedAt = 7\<rparr>],
             collections = [''mindpilot-mcp''], issued = 1\<rparr>"
      using sampleSvg_type
      by (simp add: renderMermaid_def Let_def sv finish_snd andThen_keeps)
    then show ?thesis by simp
  qed
  have c: "historyService (snd (renderMermaid ?good ''graph TD;A-->B'' None (Some ''flow'')
              sampleServer)) \<noteq> historyService sampleServer"
    using h by (auto simp: sampleServer_def emptyStore_def)
  note bad = render_failure_persists_nothing
         [where env = ?bad and dia = "''graph TD;A--''" and background = None
            and title = "Some ''flow''" and s = sampleServer and autoOpen = None
            and workingDir = "Some ''/srv/repo''" and m = sampleIpc]
  note rejected = render_failure_persists_nothing
         [where env = ?rejected and dia = "''graph TD;A--''" and background = None
            and title = "Some ''flow''" and s = sampleServer and autoOpen = None
            and workingDir = "Some ''/srv/repo''" and m = sampleIpc]
  note good = render_failure_persists_nothing
         [where env = ?good and dia = "''graph TD;A-->B''" and background = None
            and title = "Some ''flow''" and s = sampleServer and autoOpen = None
            and workingDir = "Some ''/srv/repo''" and m = sampleIpc]
  have r: "renderMermaid ?bad ''graph TD;A--'' None (Some ''flow'') sampleServer
     = (\<lparr>result_type = RError, result_diagram = ''graph TD;A--'', result_svg = None,
         result_error = Some ''Parse error on line 1''\<rparr>,
        sampleServer\<lparr>journal := [RenderCall ''graph TD;A--'' None]\<rparr>)"
    using bad [THEN conjunct1, THEN mp, OF f, THEN conjunct1]
    unfolding e by (simp add: sampleServer_def)
  have i1: "diagramRender ?bad ''graph TD;A--'' None (Some ''/srv/repo'') (Some ''flow'') sampleIpc
     = (Inl (JsError ''Parse error on line 1''), sampleIpc)"
    using bad [THEN conjunct1, THEN mp, OF f, THEN conjunct2, THEN conjunct2, THEN conjunct2,
               THEN conjunct2, THEN conjunct1]
    unfolding rb by simp
  have i2: "diagramRender ?rejected ''graph TD;A--'' None (Some ''/srv/repo'') (Some ''flow'')
              sampleIpc
     = (Inr \<lparr>reply_result = sampleRejected, reply_diagramId = None\<rparr>, sampleIpc)"
    using rejected [THEN conjunct1, THEN mp, OF g, THEN conjunct2, THEN conjunct2, THEN conjunct2,
               THEN conjunct2, THEN conjunct1]
    unfolding rr by simp
  have n: "\<not> renderFails ?good ''graph TD;A-->B'' None"
    using good [THEN conjunct2, THEN conjunct1, THEN mp, OF c] .
  from f r i1 i2 h n show ?thesis by blast
qed

lemma store_saveDiagram_unwritable:
  assumes "\<not> writable b"
  shows "store_saveDiagram dia t c b st = Inl StorageError"
  using assms by (simp add: store_saveDiagram_def)

lemma service_saveDiagram_unwritable:
  assumes "\<not> writable b"
  shows "service_saveDiagram b dia t c st = (Inl (storeErrorThrown StorageError), st)"
  by (simp add: service_saveDiagram_def store_saveDiagram_unwritable [OF assms])

lemma success_result_kept:
  assumes "result_type result = RSuccess"
  shows "result\<lparr>result_type := RSuccess\<rparr> = result"
  using assms by (cases result) simp

lemma notifyRenderer_without_id:
  "notifyRenderer dia title None s = (None, s)"
  by (simp add: notifyRenderer_def truthy_def split: option.splits)

lemma saveToHistory_when_save_throws:
  assumes "t \<noteq> []" and "cwd env = Inr wd" and "detectGitRepo env wd = Inr c"
    and "saveDiagram env dia t c (historyService s) = (Inl e, h')"
  shows "saveToHistory env dia (Some t) s
           = (None, s\<lparr>historyService := h',
                      journal := journal s @ [DetectGitRepoCall wd, SaveDiagramCall dia t c,
                        ConsoleError ''[EmbeddedMCP] Failed to save diagram to history:'' e]\<rparr>)"
  using assms by (simp add: saveToHistory_def Let_def record_effect_def)

lemma renderMermaid_when_save_throws:
  assumes "render env dia background = Inr result" and "result_type result = RSuccess"
    and "t \<noteq> []" and "cwd env = Inr wd" and "detectGitRepo env wd = Inr c"
    and "saveDiagram env dia t c (historyService s) = (Inl e, h')"
  shows "renderMermaid env dia background (Some t) s
           = (case focusWindow env
                     (s\<lparr>historyService := h',
                        journal := journal s @ [RenderCall dia background, DetectGitRepoCall wd,
                          SaveDiagramCall dia t c,
                          ConsoleError ''[EmbeddedMCP] Failed to save diagram to history:'' e]\<rparr>) of
                (None, s') \<Rightarrow> (result, s')
              | (Some e', s') \<Rightarrow> (renderFailure dia e', s'))"
proof -
  let ?s0 = "record_effect (RenderCall dia background) s"
  have sv: "saveToHistory env dia (Some t) ?s0
      = (None, s\<lparr>historyService := h',
                      journal := journal s @ [RenderCall dia background, DetectGitRepoCall wd,
                        SaveDiagramCall dia t c,
                        ConsoleError ''[EmbeddedMCP] Failed to save diagram to history:'' e]\<rparr>)"
    using saveToHistory_when_save_throws [of t env wd c dia ?s0 e h'] assms(3-6)
    by (simp add: record_effect_def)
  show ?thesis
    using assms(1,2)
    by (simp add: renderMermaid_def Let_def sv notifyRenderer_without_id andThen_def
        success_result_kept split: prod.splits option.splits)
qed

lemma diagramRender_when_save_throws:
  assumes "render env dia background = Inr result" and "result_type result = RSuccess"
    and "t \<noteq> []" and "wd \<noteq> []" and "detectGitRepo env wd = Inr c"
    and "saveDiagram env dia t c (ipcHistory m) = (Inl e, h')"
  shows "diagramRender env dia background (Some wd) (Some t) m
           = (Inr \<lparr>reply_result = result, reply_diagramId = None\<rparr>,
              m\<lparr>ipcHistory := h',
                ipcConsole := ipcConsole m
                  @ [ConsoleError ''Failed to save diagram to history:'' e]\<rparr>)"
  using assms by (simp add: diagramRender_def truthy_def)

lemma sampleEnv_fields:
  "render (sampleEnv rendered canSave) dia background = rendered"
  "cwd (sampleEnv rendered canSave) = Inr ''/home/user/project''"
  "detectGitRepo (sampleEnv rendered canSave) wd = Inr (Some ''mindpilot-mcp'')"
  "saveDiagram (sampleEnv rendered canSave) = service_saveDiagram \<lparr>now = 7, writable = canSave\<rparr>"
  "electronThrows (sampleEnv rendered canSave) = (\<lambda>call windows. None)"
  by (simp_all add: sampleEnv_def)

text \<open>
  A save that fails inside a render request is not surfaced: with a renderer that
  succeeds, a history file that cannot be written (the store's \<open>saveDiagram\<close> fails
  with \<open>StorageError\<close>, which the service throws) and an Electron that does not throw,
  \<open>renderMermaid\<close> returns the success result, the \<open>render_mermaid\<close> tool answers
  with a success result, and the DIAGRAM_RENDER handler replies with the result without a
  diagram id.
\<close>

theorem save_failure_reported_as_success_counterexample:
  "store_saveDiagram ''graph TD;A-->B'' ''flow'' (Some ''mindpilot-mcp'')
      \<lparr>now = 7, writable = False\<rparr> emptyStore = Inl StorageError
   \<and> saveDiagram (sampleEnv (Inr sampleSvg) False) ''graph TD;A-->B'' ''flow''
      (Some ''mindpilot-mcp'') (historyService sampleServer)
     = (Inl (JsError ''StorageError''), emptyStore)
   \<and> fst (renderMermaid (sampleEnv (Inr sampleSvg) False) ''graph TD;A-->B'' None (Some ''flow'')
        sampleServer) = sampleSvg
   \<and> result_type sampleSvg = RSuccess
   \<and> fst (callTool (sampleEnv (Inr sampleSvg) False) ''render_mermaid''
        \<lparr>arg_diagram = ''graph TD;A-->B'', arg_background = None, arg_title = Some ''flow'',
         arg_autoOpen = None\<rparr> sampleServer)
     = [\<lparr>content_type = ''text'', content_text = ''success result''\<rparr>]
   \<and> fst (diagramRender (sampleEnv (Inr sampleSvg) False) ''graph TD;A-->B'' None
        (Some ''/srv/repo'') (Some ''flow'') sampleIpc)
     = Inr \<lparr>reply_result = sampleSvg, reply_diagramId = None\<rparr>"
proof -
  let ?env = "sampleEnv (Inr sampleSvg) False"
  have st: "store_saveDiagram ''graph TD;A-->B'' ''flow'' (Some ''mindpilot-mcp'')
      \<lparr>now = 7, writable = False\<rparr> emptyStore = Inl StorageError"
    by (simp add: store_saveDiagram_unwritable)
  have sv: "saveDiagram ?env ''graph TD;A-->B'' ''flow'' (Some ''mindpilot-mcp'')
      (historyService sampleServer) = (Inl (JsError ''StorageError''), emptyStore)"
    by (simp add: sampleEnv_fields service_saveDiagram_unwritable storeErrorThrown_def
        sampleServer_def)
  have sv': "saveDiagram ?env ''graph TD;A-->B'' ''flow'' (Some ''mindpilot-mcp'')
      (historyService sampleServer) = (Inl (JsError ''StorageError''), historyService sampleServer)"
    using sv by (simp add: sampleServer_def)
  have si: "saveDiagram ?env ''graph TD;A-->B'' ''flow'' (Some ''mindpilot-mcp'')
      (ipcHistory sampleIpc) = (Inl (JsError ''StorageError''), ipcHistory sampleIpc)"
    by (simp add: sampleEnv_fields service_saveDiagram_unwritable storeErrorThrown_def)
  have r: "fst (renderMermaid ?env ''graph TD;A-->B'' None (Some ''flow'') sampleServer) = sampleSvg"
  proof -
    note eq = renderMermaid_when_save_throws
      [of ?env "''graph TD;A-->B''" None sampleSvg "''flow''" "''/home/user/project''"
          "Some ''mindpilot-mcp''" sampleServer "JsError ''StorageError''"
          "historyService sampleServer",
       OF sampleEnv_fields(1) sampleSvg_type _ sampleEnv_fields(2) sampleEnv_fields(3) sv']
    have quiet: "\<And>s. fst (focusWindow ?env s) = None"
      by (rule focusWindow_no_throw [OF sampleEnv_fields(5)])
    let ?logged = "sampleServer\<lparr>historyService := historyService sampleServer,
        journal := journal sampleServer @ [RenderCall ''graph TD;A-->B'' None,
          DetectGitRepoCall ''/home/user/project'',
          SaveDiagramCall ''graph TD;A-->B'' ''flow'' (Some ''mindpilot-mcp''),
          ConsoleError ''[EmbeddedMCP] Failed to save diagram to history:''
            (JsError ''StorageError'')]\<rparr>"
    obtain s' where fw: "focusWindow ?env ?logged = (None, s')"
      using quiet [of ?logged] by (cases "focusWindow ?env ?logged") simp
    show ?thesis
      unfolding eq [OF list.simps(3)] fw by simp
  qed
  have t: "fst (callTool ?env ''render_mermaid''
        \<lparr>arg_diagram = ''graph TD;A-->B'', arg_background = None, arg_title = Some ''flow'',
         arg_autoOpen = None\<rparr> sampleServer)
     = [\<lparr>content_type = ''text'', content_text = ''success result''\<rparr>]"
    using r sampleSvg_type
    by (simp add: callTool_def callTool_switch_def split_beta sampleEnv_def)
  have i: "fst (diagramRender ?env ''graph TD;A-->B'' None
        (Some ''/srv/repo'') (Some ''flow'') sampleIpc)
     = Inr \<lparr>reply_result = sampleSvg, reply_diagramId = None\<rparr>"
    using diagramRender_when_save_throws
      [of ?env "''graph TD;A-->B''" None sampleSvg "''flow''" "''/srv/repo''"
          "Some ''mindpilot-mcp''" sampleIpc "JsError ''StorageError''" "ipcHistory sampleIpc",
       OF sampleEnv_fields(1) sampleSvg_type _ _ sampleEnv_fields(3) si]
    by simp
  from st sv r sampleSvg_type t i show ?thesis by blast
qed

text \<open>
  C2 (amended). When the backing file cannot be written, \<open>saveDiagram\<close> fails with
  \<open>StorageError\<close> and the store is left as it was. With the history service backed by
  that store: a caller of \<open>saveDiagram\<close> itself (the HISTORY_SAVE handler) gets the
  failure, with the history unchanged. A save made inside a render request is caught
  there: \<open>renderMermaid\<close> logs the failure with \<open>console.error\<close>, sends no update
  notification (the journal gains the render, detector and save calls and the log entry
  only), leaves the history as it was and goes on to \<open>focusWindow\<close>; its result is
  the render result (of type success) when \<open>focusWindow\<close> returns, which it does when
  Electron does not throw, and the error built from the thrown value otherwise. The
  DIAGRAM_RENDER handler logs the failure and replies with the render result without a
  diagram id.
\<close>

theorem save_failure_in_render_is_logged:
  assumes "\<not> writable b" and "saveDiagram env = service_saveDiagram b"
  shows "store_saveDiagram dia t c b st = Inl StorageError
       \<and> historySave env dia t c m = (Inl (storeErrorThrown StorageError), m)
       \<and> (\<forall>result wd. render env dia background = Inr result \<and> result_type result = RSuccess
              \<and> t \<noteq> [] \<and> cwd env = Inr wd \<and> detectGitRepo env wd = Inr c \<longrightarrow>
            renderMermaid env dia background (Some t) s
              = (case focusWindow env
                        (s\<lparr>journal := journal s @ [RenderCall dia background, DetectGitRepoCall wd,
                             SaveDiagramCall dia t c,
                             ConsoleError ''[EmbeddedMCP] Failed to save diagram to history:''
                               (storeErrorThrown StorageError)]\<rparr>) of
                   (None, s') \<Rightarrow> (result, s')
                 | (Some e, s') \<Rightarrow> (renderFailure dia e, s'))
          \<and> historyService (snd (renderMermaid env dia background (Some t) s)) = historyService s
          \<and> journal (snd (renderMermaid env dia background (Some t) s))
              = journal s @ [RenderCall dia background, DetectGitRepoCall wd,
                             SaveDiagramCall dia t c,
                             ConsoleError ''[EmbeddedMCP] Failed to save diagram to history:''
                               (storeErrorThrown StorageError)]
          \<and> (electronThrows env = (\<lambda>call windows. None) \<longrightarrow>
                fst (renderMermaid env dia background (Some t) s) = result))
       \<and> (\<forall>result wd. render env dia background = Inr result \<and> result_type result = RSuccess
              \<and> t \<noteq> [] \<and> wd \<noteq> [] \<and> detectGitRepo env wd = Inr c \<longrightarrow>
            diagramRender env dia background (Some wd) (Some t) m
              = (Inr \<lparr>reply_result = result, reply_diagramId = None\<rparr>,
                 m\<lparr>ipcConsole := ipcConsole m
                      @ [ConsoleError ''Failed to save diagram to history:''
                           (storeErrorThrown StorageError)]\<rparr>))"
proof (intro conjI allI impI)
  show "store_saveDiagram dia t c b st = Inl StorageError"
    by (rule store_saveDiagram_unwritable [OF assms(1)])
  show "historySave env dia t c m = (Inl (storeErrorThrown StorageError), m)"
    by (simp add: historySave_def assms(2) service_saveDiagram_unwritable [OF assms(1)])
next
  fix result wd
  assume h: "render env dia background = Inr result \<and> result_type result = RSuccess
              \<and> t \<noteq> [] \<and> cwd env = Inr wd \<and> detectGitRepo env wd = Inr c"
  let ?logged = "s\<lparr>journal := journal s @ [RenderCall dia background, DetectGitRepoCall wd,
                             SaveDiagramCall dia t c,
                             ConsoleError ''[EmbeddedMCP] Failed to save diagram to history:''
                               (storeErrorThrown StorageError)]\<rparr>"
  have sv: "saveDiagram env dia t c (historyService s)
              = (Inl (storeErrorThrown StorageError), historyService s)"
    by (simp add: assms(2) service_saveDiagram_unwritable [OF assms(1)])
  from h have h1: "render env dia background = Inr result" and h2: "result_type result = RSuccess"
    and h3: "t \<noteq> []" and h4: "cwd env = Inr wd" and h5: "detectGitRepo env wd = Inr c"
    by simp_all
  have eq: "renderMermaid env dia background (Some t) s
              = (case focusWindow env ?logged of
                   (None, s') \<Rightarrow> (result, s')
                 | (Some e, s') \<Rightarrow> (renderFailure dia e, s'))"
    using renderMermaid_when_save_throws [OF h1 h2 h3 h4 h5 sv] by simp
  show "renderMermaid env dia background (Some t) s
              = (case focusWindow env ?logged of
                   (None, s') \<Rightarrow> (result, s')
                 | (Some e, s') \<Rightarrow> (renderFailure dia e, s'))"
    by (rule eq)
  have sn: "snd (renderMermaid env dia background (Some t) s) = snd (focusWindow env ?logged)"
    unfolding eq by (cases "focusWindow env ?logged") (simp split: option.splits)
  show "historyService (snd (renderMermaid env dia background (Some t) s)) = historyService s"
    unfolding sn by simp
  show "journal (snd (renderMermaid env dia background (Some t) s))
              = journal s @ [RenderCall dia background, DetectGitRepoCall wd,
                             SaveDiagramCall dia t c,
                             ConsoleError ''[EmbeddedMCP] Failed to save diagram to history:''
                               (storeErrorThrown StorageError)]"
    unfolding sn by simp
  {
    assume quiet: "electronThrows env = (\<lambda>call windows. None)"
    have "fst (focusWindow env ?logged) = None"
      by (rule focusWindow_no_throw [OF quiet])
    then show "fst (renderMermaid env dia background (Some t) s) = result"
      unfolding eq by (cases "focusWindow env ?logged") simp
  }
next
  fix result wd
  assume h: "render env dia background = Inr result \<and> result_type result = RSuccess
              \<and> t \<noteq> [] \<and> wd \<noteq> [] \<and> detectGitRepo env wd = Inr c"
  have sv: "saveDiagram env dia t c (ipcHistory m)
              = (Inl (storeErrorThrown StorageError), ipcHistory m)"
    by (simp add: assms(2) service_saveDiagram_unwritable [OF assms(1)])
  from h have h1: "render env dia background = Inr result" and h2: "result_type result = RSuccess"
    and h3: "t \<noteq> []" and h4: "wd \<noteq> []" and h5: "detectGitRepo env wd = Inr c"
    by simp_all
  show "diagramRender env dia background (Some wd) (Some t) m
              = (Inr \<lparr>reply_result = result, reply_diagramId = None\<rparr>,
                 m\<lparr>ipcConsole := ipcConsole m
                      @ [ConsoleError ''Failed to save diagram to history:''
                           (storeErrorThrown StorageError)]\<rparr>)"
    using diagramRender_when_save_throws [OF h1 h2 h3 h4 h5 sv] by simp
qed

theorem save_failure_in_render_is_logged_witness:
  "historySave (sampleEnv (Inr sampleSvg) False) ''graph TD;A-->B'' ''flow''
          (Some ''mindpilot-mcp'') sampleIpc
       = (Inl (JsError ''StorageError''), sampleIpc)
   \<and> fst (renderMermaid (sampleEnv (Inr sampleSvg) False) ''graph TD;A-->B'' None (Some ''flow'')
          sampleServer) = sampleSvg
   \<and> historyService (snd (renderMermaid (sampleEnv (Inr sampleSvg) False) ''graph TD;A-->B''
          None (Some ''flow'') sampleServer)) = emptyStore
   \<and> journal (snd (renderMermaid (sampleEnv (Inr sampleSvg) False) ''graph TD;A-->B''
          None (Some ''flow'') sampleServer))
       = [RenderCall ''graph TD;A-->B'' None, DetectGitRepoCall ''/home/user/project'',
          SaveDiagramCall ''graph TD;A-->B'' ''flow'' (Some ''mindpilot-mcp''),
          ConsoleError ''[EmbeddedMCP] Failed to save diagram to history:''
            (JsError ''StorageError'')]
   \<and> diagramRender (sampleEnv (Inr sampleSvg) False) ''graph TD;A-->B'' None
          (Some ''/srv/repo'') (Some ''flow'') sampleIpc
       = (Inr \<lparr>reply_result = sampleSvg, reply_diagramId = None\<rparr>,
          sampleIpc\<lparr>ipcConsole := [ConsoleError ''Failed to save diagram to history:''
            (JsError ''StorageError'')]\<rparr>)
   \<and> fst (renderMermaid
          ((sampleEnv (Inr sampleSvg) False)\<lparr>electronThrows := (\<lambda>call windows.
              if call = Focus then Some (JsError ''Object has been destroyed'') else None)\<rparr>)
          ''graph TD;A-->B'' None (Some ''flow'') sampleServer)
       = renderFailure ''graph TD;A-->B'' (JsError ''Object has been destroyed'')"
proof -
  let ?env = "sampleEnv (Inr sampleSvg) False"
  let ?loud = "?env\<lparr>electronThrows := (\<lambda>call windows.
              if call = Focus then Some (JsError ''Object has been destroyed'') else None)\<rparr>"
  let ?b = "\<lparr>now = 7, writable = False\<rparr>"
  have w: "\<not> writable ?b" by simp
  have backed: "saveDiagram ?env = service_saveDiagram ?b"
    by (rule sampleEnv_fields(4))
  have backed': "saveDiagram ?loud = service_saveDiagram ?b"
    by (simp add: sampleEnv_fields(4))
  note T = save_failure_in_render_is_logged
             [where b = ?b and env = ?env and dia = "''graph TD;A-->B''" and t = "''flow''"
                and c = "Some ''mindpilot-mcp''" and st = emptyStore and m = sampleIpc
                and background = None and s = sampleServer, OF w backed]
  note L = save_failure_in_render_is_logged
             [where b = ?b and env = ?loud and dia = "''graph TD;A-->B''" and t = "''flow''"
                and c = "Some ''mindpilot-mcp''" and st = emptyStore and m = sampleIpc
                and background = None and s = sampleServer, OF w backed']
  have d1: "render ?env ''graph TD;A-->B'' None = Inr sampleSvg \<and> result_type sampleSvg = RSuccess
      \<and> ''flow'' \<noteq> [] \<and> cwd ?env = Inr ''/home/user/project''
      \<and> detectGitRepo ?env ''/home/user/project'' = Inr (Some ''mindpilot-mcp'')"
    by (simp add: sampleEnv_fields sampleSvg_type)
  have d1': "render ?loud ''graph TD;A-->B'' None = Inr sampleSvg \<and> result_type sampleSvg = RSuccess
      \<and> ''flow'' \<noteq> [] \<and> cwd ?loud = Inr ''/home/user/project''
      \<and> detectGitRepo ?loud ''/home/user/project'' = Inr (Some ''mindpilot-mcp'')"
    by (simp add: sampleEnv_fields sampleSvg_type)
  have d2: "render ?env ''graph TD;A-->B'' None = Inr sampleSvg \<and> result_type sampleSvg = RSuccess
      \<and> ''flow'' \<noteq> [] \<and> ''/srv/repo'' \<noteq> []
      \<and> detectGitRepo ?env ''/srv/repo'' = Inr (Some ''mindpilot-mcp'')"
    by (simp add: sampleEnv_fields sampleSvg_type)
  have p0: "historySave ?env ''graph TD;A-->B'' ''flow'' (Some ''mindpilot-mcp'') sampleIpc
       = (Inl (JsError ''StorageError''), sampleIpc)"
    using T [THEN conjunct2, THEN conjunct1] by (simp add: storeErrorThrown_def)
  note R = T [THEN conjunct2, THEN conjunct2, THEN conjunct1, THEN spec, THEN spec, THEN mp, OF d1]
  have p1: "fst (renderMermaid ?env ''graph TD;A-->B'' None (Some ''flow'') sampleServer) = sampleSvg"
    using R [THEN conjunct2, THEN conjunct2, THEN conjunct2, THEN mp, OF sampleEnv_fields(5)] .
  have p2: "historyService (snd (renderMermaid ?env ''graph TD;A-->B'' None (Some ''flow'')
              sampleServer)) = emptyStore"
    using R [THEN conjunct2, THEN conjunct1] by (simp add: sampleServer_def)
  have p3: "journal (snd (renderMermaid ?env ''graph TD;A-->B'' None (Some ''flow'') sampleServer))
       = [RenderCall ''graph TD;A-->B'' None, DetectGitRepoCall ''/home/user/project'',
          SaveDiagramCall ''graph TD;A-->B'' ''flow'' (Some ''mindpilot-mcp''),
          ConsoleError ''[EmbeddedMCP] Failed to save diagram to history:''
            (JsError ''StorageError'')]"
    using R [THEN conjunct2, THEN conjunct2, THEN conjunct1]
    by (simp add: sampleServer_def storeErrorThrown_def)
  have p4: "diagramRender ?env ''graph TD;A-->B'' None (Some ''/srv/repo'') (Some ''flow'') sampleIpc
       = (Inr \<lparr>reply_result = sampleSvg, reply_diagramId = None\<rparr>,
          sampleIpc\<lparr>ipcConsole := [ConsoleError ''Failed to save diagram to history:''
            (JsError ''StorageError'')]\<rparr>)"
    using T [THEN conjunct2, THEN conjunct2, THEN conjunct2, THEN spec, THEN spec, THEN mp, OF d2]
    by (simp add: sampleIpc_def storeErrorThrown_def)
  have p5: "fst (renderMermaid ?loud ''graph TD;A-->B'' None (Some ''flow'') sampleServer)
       = renderFailure ''graph TD;A-->B'' (JsError ''Object has been destroyed'')"
    using L [THEN conjunct2, THEN conjunct2, THEN conjunct1, THEN spec, THEN spec, THEN mp, OF d1',
             THEN conjunct1]
    by (simp add: focusWindow_def windowCall_def andThen_def sampleServer_def)
  from p0 p1 p2 p3 p4 p5 show ?thesis by blast
qed

section \<open>Desktop shell relay: properties\<close>

lemma registered_single:
  "registered m = [w] \<longleftrightarrow> mainWindow m = Some w \<and> \<not> destroyed w"
  by (auto simp: registered_def split: option.splits if_splits)

lemma diagramUpdateHandler_registered:
  assumes "registered m = [w]"
  shows "registered (diagramUpdateHandler dia title i m)
           = [w\<lparr>received := received w
                @ [\<lparr>update_diagram = dia, update_title = title, update_id = i\<rparr>]\<rparr>]"
proof -
  from assms have "mainWindow m = Some w" and "\<not> destroyed w"
    by (simp_all add: registered_single)
  then show ?thesis
    by (simp add: registered_def diagramUpdateHandler_def)
qed

lemma diagramUpdateHandler_unregistered:
  assumes "registered m = []"
  shows "diagramUpdateHandler dia title i m = m"
  using assms
  by (simp add: registered_def diagramUpdateHandler_def split: option.splits if_splits)

lemma diagramUpdateHandler_deliveries:
  "deliveries (diagramUpdateHandler dia title i m) = deliveries m + length (registered m)"
  by (simp add: registered_def diagramUpdateHandler_def deliveries_def split: option.splits)

lemma broadcastAll_registered:
  assumes "registered m = [w]"
  shows "registered (broadcastAll us m) = [w\<lparr>received := received w @ us\<rparr>]"
  using assms
proof (induction us arbitrary: m w)
  case Nil
  then show ?case by simp
next
  case (Cons u us)
  have "registered (diagramUpdateHandler (update_diagram u) (update_title u) (update_id u) m)
          = [w\<lparr>received := received w @ [u]\<rparr>]"
    using diagramUpdateHandler_registered [OF Cons.prems] by simp
  from Cons.IH [OF this] show ?case by simp
qed

lemma gone_window_not_registered:
  "registered (onClosed m) = []" "registered (destroyWindow m) = []"
  by (auto simp: registered_def onClosed_def destroyWindow_def split: option.splits)

lemma createMainWindow_received:
  "registered (createMainWindow m)
     = [\<lparr>minimized = False, shown = False, focused = False, destroyed = False, received = []\<rparr>]"
  by (simp add: registered_def createMainWindow_def)

section \<open>Broadcast hub: properties\<close>

lemma sent_to_each:
  assumes "distinct cs"
  shows "map snd (filter (\<lambda>d. fst d = c) (map (\<lambda>k. (k, e)) cs)) = (if c \<in> set cs then [e] else [])"
  using assms by (induction cs) auto

lemma hubStep_distinct:
  assumes "distinct (connections h)"
  shows "distinct (connections (hubStep ev h))"
  using assms
  by (cases ev) (simp_all add: registerConnection_def unregisterConnection_def broadcast_def)

lemma hubRun_distinct:
  assumes "distinct (connections h)"
  shows "distinct (connections (hubRun evs h))"
  using assms
proof (induction evs arbitrary: h)
  case Nil
  then show ?case by simp
next
  case (Cons ev evs)
  from Cons.IH [OF hubStep_distinct [OF Cons.prems]] show ?case by simp
qed

lemma broadcast_inbox:
  assumes "distinct (connections h)"
  shows "inbox c (broadcast e h)
           = (if c \<in> set (connections h) then inbox c h @ [e] else inbox c h)"
  using sent_to_each [OF assms, of c e] by (simp add: inbox_def broadcast_def)

lemma broadcast_connections: "connections (broadcast e h) = connections h"
  by (simp add: broadcast_def)

lemma broadcast_count:
  "length (delivered (broadcast e h)) = length (delivered h) + length (connections h)"
  by (simp add: broadcast_def)

lemma registerConnection_inbox: "inbox c (registerConnection k h) = inbox c h"
  by (simp add: inbox_def registerConnection_def)

lemma unregisterConnection_inbox: "inbox c (unregisterConnection k h) = inbox c h"
  by (simp add: inbox_def unregisterConnection_def)

lemma broadcasts_in_order:
  assumes "distinct (connections h)" and "c \<in> set (connections h)"
  shows "inbox c (hubRun (map Broadcast es) h) = inbox c h @ es"
  using assms
proof (induction es arbitrary: h)
  case Nil
  then show ?case by simp
next
  case (Cons e es)
  have d: "distinct (connections (broadcast e h))" and m: "c \<in> set (connections (broadcast e h))"
    using Cons.prems by (simp_all add: broadcast_connections)
  from Cons.IH [OF d m] broadcast_inbox [OF Cons.prems(1), of c e] Cons.prems(2)
  show ?case by simp
qed

lemma never_registered:
  assumes "c \<notin> set (connections h)" and "Register c \<notin> set evs"
  shows "inbox c (hubRun evs h) = inbox c h \<and> c \<notin> set (connections (hubRun evs h))"
  using assms
proof (induction evs arbitrary: h)
  case Nil
  then show ?case by simp
next
  case (Cons ev evs)
  have step: "inbox c (hubStep ev h) = inbox c h \<and> c \<notin> set (connections (hubStep ev h))"
  proof (cases ev)
    case (Register k)
    with Cons.prems have "k \<noteq> c" by auto
    with Register Cons.prems(1) show ?thesis
      by (simp add: registerConnection_inbox) (simp add: registerConnection_def)
  next
    case (Unregister k)
    with Cons.prems(1) show ?thesis
      by (simp add: unregisterConnection_inbox) (simp add: unregisterConnection_def)
  next
    case (Broadcast e)
    with Cons.prems(1) show ?thesis
      by (auto simp: inbox_def broadcast_def filter_empty_conv)
  qed
  from Cons.prems(2) have "Register c \<notin> set evs" by simp
  from Cons.IH [OF conjunct2 [OF step] this] step show ?case by simp
qed

lemma emptyHub_facts:
  "distinct (connections emptyHub)" "connections emptyHub = []" "inbox c emptyHub = []"
  by (simp_all add: emptyHub_def inbox_def)

text \<open>
  C4. On a hub reached from the empty one by any registrations, disconnections and
  broadcasts: one \<open>broadcast(event)\<close> makes as many deliveries as there are connections
  registered at the call, the registered connections are pairwise distinct, each of them
  receives the event once, appended to what it had received, and no other connection
  receives anything; a connection that registers after the call does not receive the
  event, and one that never registered before has then received nothing; a run of broadcasts reaches a registered connection
  in the order of the calls. The desktop relay does the same for its one viewer, the
  main window when it exists and is not destroyed: one update adds as many deliveries as
  there are registered viewers, that viewer receives it once, with no viewer nothing
  happens, a run of updates arrives in order, and a window created after the run has
  received nothing.
\<close>

theorem broadcast_reaches_each_viewer_once:
  assumes "h = hubRun evs emptyHub"
  shows "length (delivered (broadcast e h)) = length (delivered h) + length (connections h)
       \<and> distinct (connections h)
       \<and> (\<forall>c. inbox c (broadcast e h)
                = (if c \<in> set (connections h) then inbox c h @ [e] else inbox c h))
       \<and> (\<forall>c. c \<notin> set (connections h) \<longrightarrow>
              inbox c (registerConnection c (broadcast e h)) = inbox c h)
       \<and> (\<forall>c. Register c \<notin> set evs \<longrightarrow> inbox c (registerConnection c (broadcast e h)) = [])
       \<and> (\<forall>c. c \<in> set (connections h) \<longrightarrow>
              inbox c (hubRun (map Broadcast es) h) = inbox c h @ es)
       \<and> deliveries (diagramUpdateHandler dia title i m) = deliveries m + length (registered m)
       \<and> (\<forall>w. registered m = [w] \<longrightarrow>
              registered (diagramUpdateHandler dia title i m)
                = [w\<lparr>received := received w
                     @ [\<lparr>update_diagram = dia, update_title = title, update_id = i\<rparr>]\<rparr>])
       \<and> (registered m = [] \<longrightarrow> diagramUpdateHandler dia title i m = m)
       \<and> (\<forall>w. registered m = [w] \<longrightarrow>
              registered (broadcastAll us m) = [w\<lparr>received := received w @ us\<rparr>])
       \<and> (\<forall>w. registered (createMainWindow (broadcastAll us m)) = [w] \<longrightarrow> received w = [])"
proof -
  have d: "distinct (connections h)"
    unfolding assms by (rule hubRun_distinct [OF emptyHub_facts(1)])
  have late: "inbox c (registerConnection c (broadcast e h)) = []" if "Register c \<notin> set evs" for c
  proof -
    have "c \<notin> set (connections emptyHub)" by (simp add: emptyHub_def)
    from never_registered [OF this that]
    have "inbox c h = []" and "c \<notin> set (connections h)"
      by (simp_all add: assms emptyHub_facts)
    then show ?thesis
      by (simp add: registerConnection_inbox broadcast_inbox [OF d])
  qed
  show ?thesis
    using d late
    by (simp add: broadcast_count broadcast_inbox [OF d] broadcasts_in_order [OF d]
        registerConnection_inbox
        diagramUpdateHandler_deliveries diagramUpdateHandler_registered
        diagramUpdateHandler_unregistered broadcastAll_registered createMainWindow_received)
qed

theorem broadcast_reaches_each_viewer_once_witness:
  "connections (hubRun [Register 1, Register 2] emptyHub) = [1, 2]
   \<and> length (delivered (broadcast sampleEnvelope (hubRun [Register 1, Register 2] emptyHub))) = 2
   \<and> inbox 1 (broadcast sampleEnvelope (hubRun [Register 1, Register 2] emptyHub))
       = [sampleEnvelope]
   \<and> inbox 2 (broadcast sampleEnvelope (hubRun [Register 1, Register 2] emptyHub))
       = [sampleEnvelope]
   \<and> inbox 3 (registerConnection 3
        (broadcast sampleEnvelope (hubRun [Register 1, Register 2] emptyHub))) = []
   \<and> map (\<lambda>data. diagram (onMessage \<lparr>hidden = False, hasFocus = True\<rparr> data initialApp))
        (inbox 2 (broadcast sampleEnvelope (hubRun [Register 1, Register 2] emptyHub)))
       = [''graph TD;A-->B'']
   \<and> registered (diagramUpdateHandler ''graph TD;A-->B'' ''flow'' ''id-1'' (createMainWindow noWindow))
     = [\<lparr>minimized = False, shown = False, focused = False, destroyed = False,
         received = [\<lparr>update_diagram = ''graph TD;A-->B'', update_title = ''flow'',
                      update_id = ''id-1''\<rparr>]\<rparr>]
   \<and> registered (broadcastAll sampleUpdates (createMainWindow noWindow))
     = [\<lparr>minimized = False, shown = False, focused = False, destroyed = False,
         received = sampleUpdates\<rparr>]
   \<and> diagramUpdateHandler ''graph TD;A-->B'' ''flow'' ''id-1'' noWindow = noWindow"
proof -
  let ?h = "hubRun [Register 1, Register 2] emptyHub"
  let ?w = "\<lparr>minimized = False, shown = False, focused = False, destroyed = False,
             received = []\<rparr>"
  have c: "connections ?h = [1, 2]"
    by (simp add: registerConnection_def emptyHub_def)
  have empty: "delivered ?h = []" "inbox 1 ?h = []" "inbox 2 ?h = []"
    by (simp_all add: registerConnection_def emptyHub_def inbox_def)
  have new: "Register 3 \<notin> set [Register 1, Register 2]"
    by simp
  have r: "registered (createMainWindow noWindow) = [?w]"
    by (simp add: registered_def createMainWindow_def noWindow_def)
  have n: "registered noWindow = []"
    by (simp add: registered_def noWindow_def)
  note T = broadcast_reaches_each_viewer_once
             [where h = ?h and evs = "[Register 1, Register 2]" and e = sampleEnvelope
                and es = "[]" and dia = "''graph TD;A-->B''" and title = "''flow''"
                and i = "''id-1''" and m = "createMainWindow noWindow" and us = sampleUpdates,
              OF refl]
  note N = broadcast_reaches_each_viewer_once
             [where h = ?h and evs = "[Register 1, Register 2]" and e = sampleEnvelope
                and es = "[]" and dia = "''graph TD;A-->B''" and title = "''flow''"
                and i = "''id-1''" and m = noWindow and us = sampleUpdates,
              OF refl]
  have count: "length (delivered (broadcast sampleEnvelope ?h)) = 2"
    using T [THEN conjunct1] unfolding c empty by simp
  note each = T [THEN conjunct2, THEN conjunct2, THEN conjunct1]
  have i1: "inbox 1 (broadcast sampleEnvelope ?h) = [sampleEnvelope]"
    using each [THEN spec, of 1] unfolding c empty by simp
  have i2: "inbox 2 (broadcast sampleEnvelope ?h) = [sampleEnvelope]"
    using each [THEN spec, of 2] unfolding c empty by simp
  have i3: "inbox 3 (registerConnection 3 (broadcast sampleEnvelope ?h)) = []"
    using T [THEN conjunct2, THEN conjunct2, THEN conjunct2, THEN conjunct2, THEN conjunct1,
             THEN spec, THEN mp, OF new] .
  have adopt: "map (\<lambda>data. diagram (onMessage \<lparr>hidden = False, hasFocus = True\<rparr> data initialApp))
        (inbox 2 (broadcast sampleEnvelope ?h)) = [''graph TD;A-->B'']"
    unfolding i2 by (simp add: sampleEnvelope_def onMessage_def truthy_def)
  note relay = T [THEN conjunct2, THEN conjunct2, THEN conjunct2, THEN conjunct2, THEN conjunct2,
                  THEN conjunct2]
  have one: "registered (diagramUpdateHandler ''graph TD;A-->B'' ''flow'' ''id-1''
                 (createMainWindow noWindow))
       = [?w\<lparr>received := received ?w @ [\<lparr>update_diagram = ''graph TD;A-->B'',
                 update_title = ''flow'', update_id = ''id-1''\<rparr>]\<rparr>]"
    using relay [THEN conjunct2, THEN conjunct1, THEN spec, THEN mp, OF r] .
  have many: "registered (broadcastAll sampleUpdates (createMainWindow noWindow))
       = [?w\<lparr>received := received ?w @ sampleUpdates\<rparr>]"
    using relay [THEN conjunct2, THEN conjunct2, THEN conjunct2, THEN conjunct1, THEN spec,
                 THEN mp, OF r] .
  have none: "diagramUpdateHandler ''graph TD;A-->B'' ''flow'' ''id-1'' noWindow = noWindow"
    using N [THEN conjunct2, THEN conjunct2, THEN conjunct2, THEN conjunct2, THEN conjunct2,
             THEN conjunct2, THEN conjunct2, THEN conjunct2, THEN conjunct1, THEN mp, OF n] .
  from c count i1 i2 i3 adopt one many none show ?thesis by simp
qed

section \<open>History store: properties\<close>

lemma wellFormed_emptyStore: "wellFormed emptyStore"
  by (simp add: wellFormed_def emptyStore_def)

lemma wellFormed_bound:
  assumes "wellFormed st" and "i \<in> set (map entry_id (entries st))"
  shows "i < issued st"
  using assms by (auto simp: wellFormed_def list_all_iff)

lemma store_saveDiagram_result:
  assumes "store_saveDiagram dia title collection b st = Inr (e, st')"
  shows "entry_id e = issued st" and "issued st' = Suc (issued st)"
    and "entries st' = entries st @ [e]"
  using assms by (auto simp: store_saveDiagram_def Let_def split: if_splits)

lemma store_saveDiagram_wellFormed:
  assumes "wellFormed st" and "store_saveDiagram dia title collection b st = Inr (e, st')"
  shows "wellFormed st'"
proof -
  note r = store_saveDiagram_result [OF assms(2)]
  from assms(1) have "issued st \<notin> set (map entry_id (entries st))"
    by (auto simp: wellFormed_def list_all_iff)
  with assms(1) r show ?thesis
    by (auto simp: wellFormed_def list_all_iff)
qed

lemma applyFields_keeps:
  "entry_id (applyFields p t e) = entry_id e" and "createdAt (applyFields p t e) = createdAt e"
  by (simp_all add: applyFields_def)

lemma map_entry_id_applyFields:
  "map entry_id (map (\<lambda>e. if entry_id e = i then applyFields p t e else e) es) = map entry_id es"
  by (induction es) (simp_all add: applyFields_keeps)

lemma updateDiagram_ids:
  assumes "updateDiagram i p b st = Inr st'"
  shows "map entry_id (entries st') = map entry_id (entries st)" and "issued st' = issued st"
proof -
  from assms have "st' = st\<lparr>entries := map (\<lambda>e. if entry_id e = i then applyFields p (now b) e else e)
                                   (entries st),
                    collections := (case new_collection p of
                                      None \<Rightarrow> collections st
                                    | Some c \<Rightarrow> referenceCollection c (collections st))\<rparr>"
    by (simp add: updateDiagram_def split: if_splits)
  then show "map entry_id (entries st') = map entry_id (entries st)" and "issued st' = issued st"
    using map_entry_id_applyFields [of i p "now b" "entries st"] by simp_all
qed

lemma deleteDiagram_ids:
  assumes "deleteDiagram i b st = Inr st'"
  shows "entries st' = filter (\<lambda>e. entry_id e \<noteq> i) (entries st)" and "issued st' = issued st"
    and "i \<in> set (map entry_id (entries st))"
  using assms by (auto simp: deleteDiagram_def split: if_splits)

lemma createCollection_ids:
  assumes "createCollection name b st = Inr st'"
  shows "entries st' = entries st" and "issued st' = issued st"
  using assms by (auto simp: createCollection_def split: if_splits)

lemma wellFormed_cong:
  assumes "wellFormed st" and "map entry_id (entries st') = map entry_id (entries st)"
    and "issued st' = issued st"
  shows "wellFormed st'"
proof -
  have "list_all (\<lambda>e. entry_id e < issued st') (entries st')
          = list_all (\<lambda>n. n < issued st') (map entry_id (entries st'))"
    by (simp add: list_all_iff)
  moreover have "list_all (\<lambda>e. entry_id e < issued st) (entries st)
          = list_all (\<lambda>n. n < issued st) (map entry_id (entries st))"
    by (simp add: list_all_iff)
  ultimately show ?thesis
    using assms by (simp add: wellFormed_def)
qed

lemma wellFormed_filter:
  assumes "wellFormed st" and "entries st' = filter P (entries st)" and "issued st' = issued st"
  shows "wellFormed st'"
  using assms by (auto simp: wellFormed_def list_all_iff distinct_map_filter)

lemma settle_snd:
  "snd (settle st r) = (case r of Inl err \<Rightarrow> st | Inr st' \<Rightarrow> st')"
  by (simp add: settle_def split: sum.splits)

lemma settle_fst_not_Saved [simp]:
  "fst (settle st r) \<noteq> Saved e"
  by (simp add: settle_def split: sum.splits)

lemma updateDiagram_wellFormed:
  assumes "wellFormed st"
  shows "wellFormed (snd (settle st (updateDiagram i p b st)))"
proof (cases "updateDiagram i p b st")
  case (Inl err)
  with assms show ?thesis by (simp add: settle_snd)
next
  case (Inr st')
  from wellFormed_cong [OF assms updateDiagram_ids [OF Inr]] Inr
  show ?thesis by (simp add: settle_snd)
qed

lemma deleteDiagram_wellFormed:
  assumes "wellFormed st"
  shows "wellFormed (snd (settle st (deleteDiagram i b st)))"
proof (cases "deleteDiagram i b st")
  case (Inl err)
  with assms show ?thesis by (simp add: settle_snd)
next
  case (Inr st')
  from wellFormed_filter [OF assms deleteDiagram_ids(1,2) [OF Inr]] Inr
  show ?thesis by (simp add: settle_snd)
qed

lemma createCollection_wellFormed:
  assumes "wellFormed st"
  shows "wellFormed (snd (settle st (createCollection name b st)))"
proof (cases "createCollection name b st")
  case (Inl err)
  with assms show ?thesis by (simp add: settle_snd)
next
  case (Inr st')
  from createCollection_ids [OF Inr] have "map entry_id (entries st') = map entry_id (entries st)"
    and "issued st' = issued st" by simp_all
  from wellFormed_cong [OF assms this] Inr
  show ?thesis by (simp add: settle_snd)
qed

lemma perform_SaveDiagram_cases:
  obtains (failed) err where "store_saveDiagram dia title collection b st = Inl err"
      and "perform (SaveDiagram dia title collection) b st = (Failed err, st)"
  | (saved) e st' where "store_saveDiagram dia title collection b st = Inr (e, st')"
      and "perform (SaveDiagram dia title collection) b st = (Saved e, st')"
proof (cases "store_saveDiagram dia title collection b st")
  case (Inl err)
  then show ?thesis by (intro failed [of err]) simp_all
next
  case (Inr r)
  then show ?thesis by (cases r) (intro saved, simp_all)
qed

lemma perform_wellFormed:
  assumes "wellFormed st"
  shows "wellFormed (snd (perform operation b st))"
proof (cases operation)
  case (SaveDiagram dia title collection)
  show ?thesis
  proof (cases dia title collection b st rule: perform_SaveDiagram_cases)
    case (failed err)
    with assms SaveDiagram show ?thesis by simp
  next
    case (saved e st')
    from store_saveDiagram_wellFormed [OF assms saved(1)] saved(2) SaveDiagram
    show ?thesis by simp
  qed
next
  case (UpdateDiagram i p)
  with updateDiagram_wellFormed [OF assms] show ?thesis by simp
next
  case (DeleteDiagram i)
  with deleteDiagram_wellFormed [OF assms] show ?thesis by simp
next
  case (MoveDiagram i c)
  with updateDiagram_wellFormed [OF assms] show ?thesis by (simp add: moveDiagram_def)
next
  case (CreateCollection name)
  with createCollection_wellFormed [OF assms] show ?thesis by simp
qed

lemma updateDiagram_issued:
  "issued (snd (settle st (updateDiagram i p b st))) = issued st"
  by (cases "updateDiagram i p b st") (simp_all add: settle_snd updateDiagram_ids)

lemma deleteDiagram_issued:
  "issued (snd (settle st (deleteDiagram i b st))) = issued st"
  by (cases "deleteDiagram i b st") (simp_all add: settle_snd deleteDiagram_ids)

lemma createCollection_issued:
  "issued (snd (settle st (createCollection name b st))) = issued st"
  by (cases "createCollection name b st") (simp_all add: settle_snd createCollection_ids)

lemma perform_saved:
  assumes "fst (perform operation b st) = Saved e"
  shows "entry_id e = issued st \<and> issued (snd (perform operation b st)) = Suc (issued st)"
proof (cases operation)
  case (SaveDiagram dia title collection)
  show ?thesis
  proof (cases dia title collection b st rule: perform_SaveDiagram_cases)
    case (failed err)
    with assms SaveDiagram show ?thesis by simp
  next
    case (saved e' st')
    with assms SaveDiagram have "e' = e" by simp
    with store_saveDiagram_result(1,2) [OF saved(1)] saved(2) SaveDiagram
    show ?thesis by simp
  qed
qed (use assms in simp_all)

lemma perform_issued:
  "issued st \<le> issued (snd (perform operation b st))"
proof (cases operation)
  case (SaveDiagram dia title collection)
  show ?thesis
  proof (cases dia title collection b st rule: perform_SaveDiagram_cases)
    case (failed err)
    with SaveDiagram show ?thesis by simp
  next
    case (saved e st')
    with store_saveDiagram_result(2) [OF saved(1)] SaveDiagram show ?thesis by simp
  qed
qed (simp_all add: updateDiagram_issued deleteDiagram_issued createCollection_issued
       moveDiagram_def)

lemma run_issued: "issued st \<le> issued (snd (run ops st))"
proof (induction ops arbitrary: st)
  case Nil
  then show ?case by simp
next
  case (Cons a ops)
  obtain operation b where a: "a = (operation, b)" by (cases a)
  have "issued st \<le> issued (snd (perform operation b st))"
    by (rule perform_issued)
  also have "\<dots> \<le> issued (snd (run ops (snd (perform operation b st))))"
    by (rule Cons.IH)
  finally show ?case
    by (simp add: a split_beta)
qed

lemma run_wellFormed:
  assumes "wellFormed st"
  shows "wellFormed (snd (run ops st))"
  using assms
proof (induction ops arbitrary: st)
  case Nil
  then show ?case by simp
next
  case (Cons a ops)
  obtain operation b where a: "a = (operation, b)" by (cases a)
  from Cons.IH [OF perform_wellFormed [OF Cons.prems]]
  show ?case by (simp add: a split_beta)
qed

lemma run_savedIds_range:
  "list_all (\<lambda>i. issued st \<le> i \<and> i < issued (snd (run ops st))) (savedIds (fst (run ops st)))"
proof (induction ops arbitrary: st)
  case Nil
  then show ?case by simp
next
  case (Cons a ops)
  obtain operation b where a: "a = (operation, b)" by (cases a)
  let ?st1 = "snd (perform operation b st)"
  have mono: "issued st \<le> issued ?st1" by (rule perform_issued)
  have rest: "list_all (\<lambda>i. issued st \<le> i \<and> i < issued (snd (run ops ?st1)))
                (savedIds (fst (run ops ?st1)))"
    using Cons.IH [of ?st1] mono by (auto simp: list_all_iff)
  show ?case
  proof (cases "fst (perform operation b st)")
    case (Saved e)
    from perform_saved [OF Saved] run_issued [of ?st1 ops]
    have "issued st \<le> entry_id e \<and> entry_id e < issued (snd (run ops ?st1))"
      by simp
    with rest Saved show ?thesis
      by (simp add: a split_beta)
  next
    case Done
    with rest show ?thesis by (simp add: a split_beta)
  next
    case (Failed err)
    with rest show ?thesis by (simp add: a split_beta)
  qed
qed

lemma run_savedIds_distinct:
  "distinct (savedIds (fst (run ops st)))"
proof (induction ops arbitrary: st)
  case Nil
  then show ?case by simp
next
  case (Cons a ops)
  obtain operation b where a: "a = (operation, b)" by (cases a)
  let ?st1 = "snd (perform operation b st)"
  note IH = Cons.IH [of ?st1]
  show ?case
  proof (cases "fst (perform operation b st)")
    case (Saved e)
    from perform_saved [OF Saved] run_savedIds_range [of ?st1 ops]
    have "entry_id e \<notin> set (savedIds (fst (run ops ?st1)))"
      by (auto simp: list_all_iff)
    with IH Saved show ?thesis
      by (simp add: a split_beta)
  next
    case Done
    with IH show ?thesis by (simp add: a split_beta)
  next
    case (Failed err)
    with IH show ?thesis by (simp add: a split_beta)
  qed
qed

text \<open>
  C1. After any sequence of calls on a store that starts empty (saves, updates, deletes,
  moves and collection creations, failing or not), the ids of the entries that the
  saves returned are pairwise distinct, and no two entries of the store share an id.
\<close>

theorem saved_ids_unique:
  "distinct (savedIds (fst (run ops emptyStore)))
   \<and> distinct (map entry_id (entries (snd (run ops emptyStore))))"
proof
  show "distinct (savedIds (fst (run ops emptyStore)))"
    by (rule run_savedIds_distinct)
  have "wellFormed (snd (run ops emptyStore))"
    by (rule run_wellFormed [OF wellFormed_emptyStore])
  then show "distinct (map entry_id (entries (snd (run ops emptyStore))))"
    by (simp add: wellFormed_def)
qed

lemma retired_cong:
  assumes "retired i st" and "set (map entry_id (entries st')) \<subseteq> set (map entry_id (entries st))"
    and "issued st' = issued st"
  shows "retired i st'"
  using assms by (auto simp: retired_def)

lemma updateDiagram_retired:
  assumes "retired i st"
  shows "retired i (snd (settle st (updateDiagram j p b st)))"
proof (cases "updateDiagram j p b st")
  case (Inl err)
  with assms show ?thesis by (simp add: settle_snd)
next
  case (Inr st')
  from updateDiagram_ids [OF Inr] have "set (map entry_id (entries st')) \<subseteq> set (map entry_id (entries st))"
    and "issued st' = issued st" by simp_all
  from retired_cong [OF assms this] Inr show ?thesis by (simp add: settle_snd)
qed

lemma deleteDiagram_retired:
  assumes "retired i st"
  shows "retired i (snd (settle st (deleteDiagram j b st)))"
proof (cases "deleteDiagram j b st")
  case (Inl err)
  with assms show ?thesis by (simp add: settle_snd)
next
  case (Inr st')
  from deleteDiagram_ids(1,2) [OF Inr] have "set (map entry_id (entries st')) \<subseteq> set (map entry_id (entries st))"
    and "issued st' = issued st" by auto
  from retired_cong [OF assms this] Inr show ?thesis by (simp add: settle_snd)
qed

lemma createCollection_retired:
  assumes "retired i st"
  shows "retired i (snd (settle st (createCollection name b st)))"
proof (cases "createCollection name b st")
  case (Inl err)
  with assms show ?thesis by (simp add: settle_snd)
next
  case (Inr st')
  from createCollection_ids [OF Inr] have "set (map entry_id (entries st')) \<subseteq> set (map entry_id (entries st))"
    and "issued st' = issued st" by simp_all
  from retired_cong [OF assms this] Inr show ?thesis by (simp add: settle_snd)
qed

lemma perform_retired:
  assumes "retired i st"
  shows "retired i (snd (perform operation b st))"
proof (cases operation)
  case (SaveDiagram dia title collection)
  show ?thesis
  proof (cases dia title collection b st rule: perform_SaveDiagram_cases)
    case (failed err)
    with assms SaveDiagram show ?thesis by simp
  next
    case (saved e st')
    from store_saveDiagram_result [OF saved(1)] assms have "retired i st'"
      by (auto simp: retired_def)
    with saved(2) SaveDiagram show ?thesis by simp
  qed
next
  case (UpdateDiagram j p)
  with updateDiagram_retired [OF assms] show ?thesis by simp
next
  case (DeleteDiagram j)
  with deleteDiagram_retired [OF assms] show ?thesis by simp
next
  case (MoveDiagram j c)
  with updateDiagram_retired [OF assms] show ?thesis by (simp add: moveDiagram_def)
next
  case (CreateCollection name)
  with createCollection_retired [OF assms] show ?thesis by simp
qed

lemma run_retired:
  assumes "retired i st"
  shows "retired i (snd (run ops st))"
  using assms
proof (induction ops arbitrary: st)
  case Nil
  then show ?case by simp
next
  case (Cons a ops)
  obtain operation b where a: "a = (operation, b)" by (cases a)
  from Cons.IH [OF perform_retired [OF Cons.prems]]
  show ?case by (simp add: a split_beta)
qed

lemma deleteDiagram_retires:
  assumes "wellFormed st" and "deleteDiagram i b st = Inr st'"
  shows "retired i st'"
proof -
  note d = deleteDiagram_ids [OF assms(2)]
  from wellFormed_bound [OF assms(1) d(3)] d(1,2) show ?thesis
    by (auto simp: retired_def)
qed

lemma retired_not_listed:
  assumes "retired i st"
  shows "i \<notin> set (map entry_id (getDiagrams collection st))"
  using assms by (auto simp: retired_def getDiagrams_def split: option.splits)

lemma retired_delete_fails:
  assumes "retired i st"
  shows "deleteDiagram i b st = Inl NotFoundError"
  using assms by (simp add: retired_def deleteDiagram_def)

text \<open>
  C8. When \<open>deleteDiagram(id)\<close> succeeds on a store reached from the empty one, then
  after any later sequence of calls \<open>getDiagrams\<close>, with or without a collection,
  lists no entry with that id, and another \<open>deleteDiagram(id)\<close> fails with
  \<open>NotFoundError\<close>.
\<close>

theorem delete_is_final:
  assumes "deleteDiagram i b (snd (run earlier emptyStore)) = Inr st'"
  shows "i \<notin> set (map entry_id (getDiagrams collection (snd (run later st'))))
       \<and> deleteDiagram i b' (snd (run later st')) = Inl NotFoundError"
proof -
  have "wellFormed (snd (run earlier emptyStore))"
    by (rule run_wellFormed [OF wellFormed_emptyStore])
  from deleteDiagram_retires [OF this assms] have "retired i (snd (run later st'))"
    by (rule run_retired)
  from retired_not_listed [OF this] retired_delete_fails [OF this]
  show ?thesis by (rule conjI)
qed

lemma sampleStore_value:
  "sampleStore =
     \<lparr>entries = [\<lparr>entry_id = 0, entry_diagram = ''graph TD;A-->B'', entry_title = ''flow'',
                   entry_collection = None, createdAt = 1, updatedAt = 1\<rparr>,
                  \<lparr>entry_id = 1, entry_diagram = ''graph LR;X-->Y'', entry_title = ''other'',
                   entry_collection = Some ''project-x'', createdAt = 2, updatedAt = 2\<rparr>],
      collections = [''project-x''], issued = 2\<rparr>"
  by (simp add: sampleStore_def emptyStore_def store_saveDiagram_def referenceCollection_def
      Let_def)


theorem delete_is_final_witness:
  "deleteDiagram 0 sampleBacking (snd (run
       [(SaveDiagram ''graph TD;A-->B'' ''flow'' None, \<lparr>now = 1, writable = True\<rparr>),
        (SaveDiagram ''graph LR;X-->Y'' ''other'' (Some ''project-x''),
         \<lparr>now = 2, writable = True\<rparr>)] emptyStore))
     = Inr (sampleStore\<lparr>entries := [\<lparr>entry_id = 1, entry_diagram = ''graph LR;X-->Y'',
                   entry_title = ''other'', entry_collection = Some ''project-x'',
                   createdAt = 2, updatedAt = 2\<rparr>]\<rparr>)
   \<and> 0 \<notin> set (map entry_id (getDiagrams None (snd (run
       [(SaveDiagram ''graph TD;C-->D'' ''again'' None, sampleBacking)]
       (sampleStore\<lparr>entries := [\<lparr>entry_id = 1, entry_diagram = ''graph LR;X-->Y'',
                   entry_title = ''other'', entry_collection = Some ''project-x'',
                   createdAt = 2, updatedAt = 2\<rparr>]\<rparr>)))))
   \<and> deleteDiagram 0 sampleBacking (snd (run
       [(SaveDiagram ''graph TD;C-->D'' ''again'' None, sampleBacking)]
       (sampleStore\<lparr>entries := [\<lparr>entry_id = 1, entry_diagram = ''graph LR;X-->Y'',
                   entry_title = ''other'', entry_collection = Some ''project-x'',
                   createdAt = 2, updatedAt = 2\<rparr>]\<rparr>))) = Inl NotFoundError"
proof -
  let ?st' = "sampleStore\<lparr>entries := [\<lparr>entry_id = 1, entry_diagram = ''graph LR;X-->Y'',
                   entry_title = ''other'', entry_collection = Some ''project-x'',
                   createdAt = 2, updatedAt = 2\<rparr>]\<rparr>"
  have d: "deleteDiagram 0 sampleBacking (snd (run
       [(SaveDiagram ''graph TD;A-->B'' ''flow'' None, \<lparr>now = 1, writable = True\<rparr>),
        (SaveDiagram ''graph LR;X-->Y'' ''other'' (Some ''project-x''),
         \<lparr>now = 2, writable = True\<rparr>)] emptyStore)) = Inr ?st'"
    unfolding sampleStore_def [symmetric]
    by (simp add: sampleStore_value deleteDiagram_def sampleBacking_def)
  from d delete_is_final [OF d, of None "[(SaveDiagram ''graph TD;C-->D'' ''again'' None, sampleBacking)]"
      sampleBacking]
  show ?thesis by (rule conjI)
qed

lemma updateDiagram_entries:
  assumes "updateDiagram i p b st = Inr st'"
  shows "entries st' = map (\<lambda>e. if entry_id e = i then applyFields p (now b) e else e) (entries st)"
    and "issued st' = issued st"
    and "collections st' = (case new_collection p of
                                      None \<Rightarrow> collections st
                                    | Some c \<Rightarrow> referenceCollection c (collections st))"
  using assms by (auto simp: updateDiagram_def split: if_splits)

lemma applyFields_suppliedFieldsOnly:
  "suppliedFieldsOnly p t e (applyFields p t e)"
  by (simp add: suppliedFieldsOnly_def applyFields_def)

lemma list_all2_map_self:
  assumes "\<And>x. x \<in> set xs \<Longrightarrow> P x (f x)"
  shows "list_all2 P xs (map f xs)"
  using assms by (induction xs) simp_all

text \<open>
  C9. \<open>updateDiagram(id, partialFields)\<close> fails with \<open>NotFoundError\<close> when no entry
  has the id, and succeeds when one has it and the file can be written. After a success
  every entry with another id is as before, and an entry with the id keeps its id and
  \<open>createdAt\<close>, has \<open>updatedAt\<close> set to the time of the call, and has each of
  title, collection and diagram either set to the supplied value or unchanged. With the
  title alone supplied, only the title and \<open>updatedAt\<close> of that entry change.
\<close>

theorem updateDiagram_changes_supplied_fields_only:
  "(i \<notin> set (map entry_id (entries st)) \<longrightarrow> updateDiagram i p b st = Inl NotFoundError)
   \<and> (i \<in> set (map entry_id (entries st)) \<and> writable b \<longrightarrow>
        (\<exists>st'. updateDiagram i p b st = Inr st'))
   \<and> (\<forall>st'. updateDiagram i p b st = Inr st' \<longrightarrow>
        list_all2 (\<lambda>e e'. if entry_id e = i then suppliedFieldsOnly p (now b) e e' else e' = e)
          (entries st) (entries st'))
   \<and> (\<forall>st'. updateDiagram i (titleOnly t2) b st = Inr st' \<longrightarrow>
        entries st' = map (\<lambda>e. if entry_id e = i
                                then e\<lparr>entry_title := t2, updatedAt := now b\<rparr> else e) (entries st))"
proof (intro conjI impI allI)
  assume "i \<notin> set (map entry_id (entries st))"
  then show "updateDiagram i p b st = Inl NotFoundError"
    by (simp add: updateDiagram_def)
next
  assume "i \<in> set (map entry_id (entries st)) \<and> writable b"
  then show "\<exists>st'. updateDiagram i p b st = Inr st'"
    by (simp add: updateDiagram_def)
next
  fix st'
  assume "updateDiagram i p b st = Inr st'"
  from updateDiagram_entries(1) [OF this]
  show "list_all2 (\<lambda>e e'. if entry_id e = i then suppliedFieldsOnly p (now b) e e' else e' = e)
          (entries st) (entries st')"
    by (simp add: list_all2_map_self applyFields_suppliedFieldsOnly)
next
  fix st'
  assume "updateDiagram i (titleOnly t2) b st = Inr st'"
  from updateDiagram_entries(1) [OF this]
  show "entries st' = map (\<lambda>e. if entry_id e = i
                                then e\<lparr>entry_title := t2, updatedAt := now b\<rparr> else e) (entries st)"
    by (simp add: titleOnly_def applyFields_def)
qed

theorem updateDiagram_changes_supplied_fields_only_witness:
  "updateDiagram 0 (titleOnly ''flow v2'') sampleBacking sampleStore
     = Inr (sampleStore\<lparr>entries :=
         [\<lparr>entry_id = 0, entry_diagram = ''graph TD;A-->B'', entry_title = ''flow v2'',
           entry_collection = None, createdAt = 1, updatedAt = 7\<rparr>,
          \<lparr>entry_id = 1, entry_diagram = ''graph LR;X-->Y'', entry_title = ''other'',
           entry_collection = Some ''project-x'', createdAt = 2, updatedAt = 2\<rparr>]\<rparr>)
   \<and> updateDiagram 5 (titleOnly ''flow v2'') sampleBacking sampleStore = Inl NotFoundError
   \<and> list_all2 (\<lambda>e e'. if entry_id e = 0
          then suppliedFieldsOnly (titleOnly ''flow v2'') (now sampleBacking) e e' else e' = e)
        (entries sampleStore)
        [\<lparr>entry_id = 0, entry_diagram = ''graph TD;A-->B'', entry_title = ''flow v2'',
           entry_collection = None, createdAt = 1, updatedAt = 7\<rparr>,
          \<lparr>entry_id = 1, entry_diagram = ''graph LR;X-->Y'', entry_title = ''other'',
           entry_collection = Some ''project-x'', createdAt = 2, updatedAt = 2\<rparr>]"
proof -
  let ?es = "[\<lparr>entry_id = 0, entry_diagram = ''graph TD;A-->B'', entry_title = ''flow v2'',
           entry_collection = None, createdAt = 1, updatedAt = 7\<rparr>,
          \<lparr>entry_id = 1, entry_diagram = ''graph LR;X-->Y'', entry_title = ''other'',
           entry_collection = Some ''project-x'', createdAt = 2, updatedAt = 2\<rparr>]"
  have u: "updateDiagram 0 (titleOnly ''flow v2'') sampleBacking sampleStore
             = Inr (sampleStore\<lparr>entries := ?es\<rparr>)"
    by (simp add: sampleStore_value updateDiagram_def titleOnly_def sampleBacking_def
        applyFields_def)
  have n: "5 \<notin> set (map entry_id (entries sampleStore))"
    by (simp add: sampleStore_value)
  note T = updateDiagram_changes_supplied_fields_only
  have "updateDiagram 5 (titleOnly ''flow v2'') sampleBacking sampleStore = Inl NotFoundError"
    using T [of 5 sampleStore "titleOnly ''flow v2''" sampleBacking, THEN conjunct1, THEN mp, OF n] .
  moreover have "list_all2 (\<lambda>e e'. if entry_id e = 0
          then suppliedFieldsOnly (titleOnly ''flow v2'') (now sampleBacking) e e' else e' = e)
        (entries sampleStore) (entries (sampleStore\<lparr>entries := ?es\<rparr>))"
    using T [of 0 sampleStore "titleOnly ''flow v2''" sampleBacking, THEN conjunct2,
             THEN conjunct2, THEN conjunct1, THEN spec, THEN mp, OF u] .
  ultimately show ?thesis
    using u by simp
qed

end
